theory Spec2Isabelle
  imports Complex_Main "HOL-Library.Sublist"
begin

section \<open>Data model (core/models.py)\<close>

text \<open>
  Users are identified by their primary key. A point in time is a number of microseconds
  (the resolution of a Python \<open>datetime\<close>). Python integers are unbounded, so every
  integer field is an \<open>int\<close>. A Python float is represented by the real number it stands
  for; float arithmetic is a parameter (see \<open>float_arith\<close>).
\<close>

type_synonym user_id = nat
type_synonym datetime = int
type_synonym bytes = "nat list"

text \<open>
  \<open>PotholeReport.Status\<close> and \<open>RedemptionRequest.Status\<close> declare the same three
  choices; one datatype serves both.
\<close>

datatype status = Pending | Approved | Rejected

text \<open>The exceptions that the modelled code can raise.\<close>

datatype exn =
    AttributeError
  | RelatedObjectDoesNotExist
  | UnidentifiedImageError
  | ZeroDivisionError
  | ValueError
  | IntegrityError

text \<open>\<open>UserProfile\<close>; it is reached from a user through the one-to-one relation \<open>user.profile\<close>.\<close>

record user_profile =
  phone :: string
  is_verified :: bool
  points :: int

text \<open>
  \<open>PotholeReport\<close>. The primary key is called \<open>report_id\<close> here (\<open>id\<close> is the identity
  function of HOL). The stored image file itself is left out: no modelled function reads it back.
  The defaults of the model are written out where \<open>submit_report\<close> creates a report.
\<close>

record pothole_report =
  report_id :: string
  user :: "user_id option"
  image_hash :: string
  latitude :: real
  longitude :: real
  region :: string
  severity :: int
  ai_valid :: bool
  ai_score :: "real option"
  status :: status
  is_spam :: bool
  submitted_ip :: "string option"
  device_id :: string
  is_synced :: bool
  approved_by :: "user_id option"
  approved_at :: "datetime option"
  rejection_reason :: string
  points_awarded :: int
  created_at :: datetime

text \<open>
  \<open>RedemptionRequest\<close>. These are all the columns the model declares; there is no column for a
  rejection reason. Field names that \<open>PotholeReport\<close> also uses carry the prefix
  \<open>redemption_\<close>.
\<close>

record redemption_request =
  redemption_id :: nat
  redemption_user :: user_id
  redemption_points :: int
  airtime_amount :: int
  redemption_status :: status
  mtn_phone :: string
  reference :: string
  redemption_approved_by :: "user_id option"
  redemption_approved_at :: "datetime option"

text \<open>
  A \<open>RedemptionRequest\<close> object in memory. Python lets the code assign any attribute to an
  instance; \<open>approve_redemption\<close> assigns \<open>rejection_reason\<close>, which is not a column, so it
  lives on the instance only.
\<close>

record redemption_instance = redemption_request +
  rejection_reason_attr :: "string option"

text \<open>
  The persistent state: the three tables and the Django cache. A cache entry holds a value and
  the time at which it expires.
\<close>

record store =
  profiles :: "user_id \<rightharpoonup> user_profile"
  reports :: "pothole_report list"
  redemptions :: "redemption_request list"
  cache :: "string \<rightharpoonup> (int \<times> datetime)"

text \<open>
  \<open>Model.save()\<close> updates the row with the instance's primary key and inserts a row when there
  is none.
\<close>

definition save_report :: "store \<Rightarrow> pothole_report \<Rightarrow> store" where
  "save_report s r =
     (if list_ex (\<lambda>x. report_id x = report_id r) (reports s)
      then s\<lparr>reports := map (\<lambda>x. if report_id x = report_id r then r else x) (reports s)\<rparr>
      else s\<lparr>reports := reports s @ [r]\<rparr>)"

definition save_profile :: "store \<Rightarrow> user_id \<Rightarrow> user_profile \<Rightarrow> store" where
  "save_profile s u p = s\<lparr>profiles := (profiles s)(u \<mapsto> p)\<rparr>"

text \<open>Saving an instance writes its columns; attributes that are not columns are dropped.\<close>

definition save_redemption :: "store \<Rightarrow> redemption_instance \<Rightarrow> store" where
  "save_redemption s i =
     (let row = redemption_request.truncate i in
      if list_ex (\<lambda>x. redemption_id x = redemption_id row) (redemptions s)
      then s\<lparr>redemptions :=
               map (\<lambda>x. if redemption_id x = redemption_id row then row else x) (redemptions s)\<rparr>
      else s\<lparr>redemptions := redemptions s @ [row]\<rparr>)"

text \<open>Loading a row by primary key, and loading a redemption row into a fresh instance.\<close>

definition get_report :: "store \<Rightarrow> string \<Rightarrow> pothole_report option" where
  "get_report s i = find (\<lambda>x. report_id x = i) (reports s)"

definition get_redemption :: "store \<Rightarrow> nat \<Rightarrow> redemption_request option" where
  "get_redemption s i = find (\<lambda>x. redemption_id x = i) (redemptions s)"

definition load_redemption :: "redemption_request \<Rightarrow> redemption_instance" where
  "load_redemption row = redemption_request.extend row
     (redemption_instance.fields None)"

section \<open>Awarding points (core/utils.py, award_report_points)\<close>

text \<open>
  The function returns early when the report already carries points. Otherwise it follows
  \<open>report.user.profile\<close>: \<open>report.user\<close> is \<open>None\<close> for a report whose owner was deleted
  (\<open>AttributeError\<close>), and a user without a profile row raises
  \<open>RelatedObjectDoesNotExist\<close>. The result is the new store and the mutated report object.
\<close>

definition award_report_points :: "store \<Rightarrow> pothole_report \<Rightarrow> exn + (store \<times> pothole_report)" where
  "award_report_points s report =
     (if points_awarded report > 0 then Inr (s, report)
      else case user report of
             None \<Rightarrow> Inl AttributeError
           | Some u \<Rightarrow>
               (case profiles s u of
                  None \<Rightarrow> Inl RelatedObjectDoesNotExist
                | Some profile \<Rightarrow>
                    (let s1 = save_profile s u (profile\<lparr>points := points profile + 50\<rparr>);
                         report1 = report\<lparr>points_awarded := 50\<rparr>
                     in Inr (save_report s1 report1, report1))))"

section \<open>Review actions (core/admin.py)\<close>

text \<open>
  An admin action runs over the selected objects in order. The result is the store the action
  leaves behind and the exception that ended it, if any: what was saved before an exception
  stays saved. \<open>now\<close> is the reading of \<open>timezone.now()\<close>.
\<close>

fun approve_reports :: "user_id \<Rightarrow> datetime \<Rightarrow> store \<Rightarrow> pothole_report list \<Rightarrow> store \<times> exn option" where
  "approve_reports admin_user now s [] = (s, None)"
| "approve_reports admin_user now s (report # queryset) =
     (if status report \<noteq> Pending then approve_reports admin_user now s queryset
      else if \<not> ai_valid report then
        approve_reports admin_user now
          (save_report s (report\<lparr>status := Rejected,
                                 rejection_reason := ''AI rejected this image as non-pothole.''\<rparr>))
          queryset
      else
        (let report1 = report\<lparr>status := Approved, approved_at := Some now,
                               approved_by := Some admin_user\<rparr>;
             s1 = save_report s report1
         in case award_report_points s1 report1 of
              Inl e \<Rightarrow> (s1, Some e)
            | Inr (s2, report2) \<Rightarrow> approve_reports admin_user now s2 queryset))"

fun reject_reports :: "store \<Rightarrow> pothole_report list \<Rightarrow> store" where
  "reject_reports s [] = s"
| "reject_reports s (report # queryset) =
     reject_reports
       (save_report s
          (report\<lparr>status := Rejected,
                  rejection_reason :=
                    (if rejection_reason report = [] then ''Rejected by admin.''
                     else rejection_reason report)\<rparr>))
       queryset"

section \<open>Redemption (core/api.py, core/utils.py, core/admin.py)\<close>

text \<open>
  The outcome of a view: a success body, an \<open>ErrorResponse\<close> with its HTTP status code, or an
  exception that leaves the view uncaught.
\<close>

datatype 'a response = Success 'a | ErrorResponse int string | Raised exn

text \<open>\<open>str.upper()\<close> on ASCII text.\<close>

definition upper_char :: "char \<Rightarrow> char" where
  "upper_char c =
     (case map_of (zip ''abcdefghijklmnopqrstuvwxyz'' ''ABCDEFGHIJKLMNOPQRSTUVWXYZ'') c of
        None \<Rightarrow> c
      | Some C \<Rightarrow> C)"

text \<open>
  \<open>generate_reference\<close>: \<open>date_part\<close> is \<open>timezone.now().strftime("%Y%m%d")\<close> and
  \<open>uuid_hex\<close> is \<open>uuid.uuid4().hex\<close>; both come from the environment.
\<close>

definition generate_reference :: "string \<Rightarrow> string \<Rightarrow> string" where
  "generate_reference date_part uuid_hex =
     ''RDM-'' @ date_part @ ''-'' @ map upper_char (take 6 uuid_hex)"

text \<open>
  \<open>RedemptionRequest.objects.create\<close>: the key is assigned by the database, the status
  defaults to pending and the reference to \<open>generate_reference()\<close>. The \<open>reference\<close> column
  is unique, so an insert or an update that would repeat the reference of another row raises
  \<open>IntegrityError\<close>.
\<close>

definition next_redemption_id :: "store \<Rightarrow> nat" where
  "next_redemption_id s = Suc (fold max (map redemption_id (redemptions s)) 0)"

definition reference_taken :: "store \<Rightarrow> nat \<Rightarrow> string \<Rightarrow> bool" where
  "reference_taken s i ref =
     list_ex (\<lambda>x. redemption_id x \<noteq> i \<and> reference x = ref) (redemptions s)"

definition save_redemption_checked :: "store \<Rightarrow> redemption_instance \<Rightarrow> exn + store" where
  "save_redemption_checked s i =
     (if reference_taken s (redemption_id i) (reference i) then Inl IntegrityError
      else Inr (save_redemption s i))"

record redeem_request =
  payload_points :: int
  payload_mtn_phone :: string

definition redeem_points ::
  "string \<Rightarrow> string \<Rightarrow> store \<Rightarrow> user_id \<Rightarrow> redeem_request \<Rightarrow> redemption_request response \<times> store" where
  "redeem_points date_part uuid_hex s usr payload =
     (case profiles s usr of
        None \<Rightarrow> (Raised RelatedObjectDoesNotExist, s)
      | Some profile \<Rightarrow>
          (let pts = payload_points payload in
           if pts \<le> 0 then (ErrorResponse 400 ''Points must be positive.'', s)
           else if pts mod 500 \<noteq> 0 then
             (ErrorResponse 400 ''Redemptions must be in blocks of 500.'', s)
           else if points profile < pts then (ErrorResponse 400 ''Insufficient points.'', s)
           else
             (let amount = (pts div 500) * 5;
                  redemption = \<lparr>redemption_id = next_redemption_id s,
                                redemption_user = usr,
                                redemption_points = pts,
                                airtime_amount = amount,
                                redemption_status = Pending,
                                mtn_phone = payload_mtn_phone payload,
                                reference = generate_reference date_part uuid_hex,
                                redemption_approved_by = None,
                                redemption_approved_at = None\<rparr>
              in case save_redemption_checked s (load_redemption redemption) of
                   Inl e \<Rightarrow> (Raised e, s)
                 | Inr s1 \<Rightarrow> (Success redemption, s1))))"

text \<open>
  What \<open>requests.post\<close> followed by \<open>response.json()\<close> gives: an exception, or a JSON object
  with its \<open>errorMessage\<close> (if present) and, for each entry of \<open>responses\<close>, its
  \<open>requestId\<close> (if present).
\<close>

datatype http_outcome = PostRaised | Json "string option" "string option list"

definition send_airtime_to_user :: "(string \<Rightarrow> int \<Rightarrow> http_outcome) \<Rightarrow> string \<Rightarrow> int \<Rightarrow> bool \<times> string" where
  "send_airtime_to_user post phone_no amount =
     (case post phone_no amount of
        PostRaised \<Rightarrow> (False, [])
      | Json errorMessage entries \<Rightarrow>
          (if errorMessage \<noteq> None \<and> errorMessage \<noteq> Some [] then (False, [])
           else case entries of
                  [] \<Rightarrow> (False, [])
                | e # _ \<Rightarrow> (True, case e of None \<Rightarrow> [] | Some request_id \<Rightarrow> request_id)))"

text \<open>
  \<open>approve_redemption\<close> returns the store, the instances it has finished with (in order) and
  the exception that ended the action, if any. On success the profile is saved before the
  redemption.
\<close>

fun approve_redemption ::
  "(string \<Rightarrow> int \<Rightarrow> http_outcome) \<Rightarrow> user_id \<Rightarrow> datetime \<Rightarrow> store \<Rightarrow> redemption_instance list
     \<Rightarrow> store \<times> redemption_instance list \<times> exn option" where
  "approve_redemption post admin_user now s [] = (s, [], None)"
| "approve_redemption post admin_user now s (redemption # queryset) =
     (if redemption_status redemption \<noteq> Pending then
        (case approve_redemption post admin_user now s queryset of
           (s', finished, e) \<Rightarrow> (s', redemption # finished, e))
      else
        (case send_airtime_to_user post (mtn_phone redemption) (airtime_amount redemption) of
           (success, ref) \<Rightarrow>
             (if success then
                (let redemption1 = redemption\<lparr>redemption_status := Approved,
                                               reference := ref,
                                               redemption_approved_by := Some admin_user,
                                               redemption_approved_at := Some now\<rparr>
                 in case profiles s (redemption_user redemption1) of
                      None \<Rightarrow> (s, [], Some RelatedObjectDoesNotExist)
                    | Some profile \<Rightarrow>
                        (let s1 = save_profile s (redemption_user redemption1)
                                    (profile\<lparr>points :=
                                       max 0 (points profile - redemption_points redemption1)\<rparr>)
                         in case save_redemption_checked s1 redemption1 of
                              Inl e \<Rightarrow> (s1, [], Some e)
                            | Inr s2 \<Rightarrow>
                                (case approve_redemption post admin_user now s2 queryset of
                                   (s', finished, e) \<Rightarrow> (s', redemption1 # finished, e))))
              else
                (let redemption1 = redemption\<lparr>redemption_status := Rejected,
                                               rejection_reason_attr :=
                                                 Some ''Airtime API error. Try again.''\<rparr>
                 in case save_redemption_checked s redemption1 of
                      Inl e \<Rightarrow> (s, [], Some e)
                    | Inr s2 \<Rightarrow>
                        (case approve_redemption post admin_user now s2 queryset of
                           (s', finished, e) \<Rightarrow> (s', redemption1 # finished, e))))))"

section \<open>Image hashing (core/utils.py, calculate_phash)\<close>

text \<open>
  \<open>int(bits, 2)\<close> on a string of the characters 0 and 1, \<open>format(n, "0x")\<close> (lower-case
  hexadecimal without prefix; the 0 flag has no effect without a width) and \<open>str.zfill\<close> on a
  string without sign.
\<close>

definition int_base2 :: "string \<Rightarrow> nat" where
  "int_base2 bits = foldl (\<lambda>acc c. 2 * acc + (if c = CHR ''1'' then 1 else 0)) 0 bits"

definition hex_digit :: "nat \<Rightarrow> char" where
  "hex_digit d = ''0123456789abcdef'' ! d"

function format_hex :: "nat \<Rightarrow> string" where
  "format_hex n = (if n < 16 then [hex_digit n] else format_hex (n div 16) @ [hex_digit (n mod 16)])"
  by pat_completeness auto
termination
  by (relation "measure (\<lambda>n. n)") auto

declare format_hex.simps [simp del]

definition zfill :: "string \<Rightarrow> nat \<Rightarrow> string" where
  "zfill s width = replicate (width - length s) (CHR ''0'') @ s"

text \<open>
  \<open>image_open\<close> stands for Pillow: \<open>Image.open(f).convert("L").resize((32, 32), filter)\<close>
  followed by \<open>getdata()\<close>. It gives the grey levels of the 32 by 32 grid, or nothing when Pillow
  cannot identify the data (\<open>UnidentifiedImageError\<close>). The mean is an exact quotient: for the
  1024 pixels of the grid the float division by a power of two is exact as well.
\<close>

definition calculate_phash :: "(bytes \<Rightarrow> int list option) \<Rightarrow> bytes \<Rightarrow> exn + string" where
  "calculate_phash image_open image_file =
     (case image_open image_file of
        None \<Rightarrow> Inl UnidentifiedImageError
      | Some pixels \<Rightarrow>
          (if length pixels = 0 then Inl ZeroDivisionError
           else
             (let avg_pixel = (of_int (sum_list pixels) :: rat) / of_nat (length pixels);
                  bits = map (\<lambda>px. if of_int px \<ge> avg_pixel then CHR ''1'' else CHR ''0'') pixels;
                  hex_hash = format_hex (int_base2 bits)
              in Inr (zfill hex_hash 64))))"

section \<open>GPS clustering (core/utils.py)\<close>

text \<open>
  Python floats are IEEE doubles. A float is represented by the real number it stands for
  (infinities and NaN are left out), and comparisons of floats are exact. The operations of
  float arithmetic round their results, so they are parameters of the model: each field of
  \<open>float_arith\<close> gives the float that the operation returns on float arguments. \<open>fl_pow\<close>
  is \<open>x ** n\<close> for an integer \<open>n\<close>, \<open>fl_sqrt\<close> is \<open>math.sqrt\<close> on an argument that is
  not negative.
\<close>

record float_arith =
  fl_add :: "real \<Rightarrow> real \<Rightarrow> real"
  fl_sub :: "real \<Rightarrow> real \<Rightarrow> real"
  fl_mul :: "real \<Rightarrow> real \<Rightarrow> real"
  fl_div :: "real \<Rightarrow> real \<Rightarrow> real"
  fl_pow :: "real \<Rightarrow> nat \<Rightarrow> real"
  fl_radians :: "real \<Rightarrow> real"
  fl_sin :: "real \<Rightarrow> real"
  fl_cos :: "real \<Rightarrow> real"
  fl_sqrt :: "real \<Rightarrow> real"
  fl_atan2 :: "real \<Rightarrow> real \<Rightarrow> real"

text \<open>\<open>math.sqrt\<close> raises \<open>ValueError\<close> on a negative argument, whatever the rounding.\<close>

definition math_sqrt :: "float_arith \<Rightarrow> real \<Rightarrow> exn + real" where
  "math_sqrt fa x = (if x < 0 then Inl ValueError else Inr (fl_sqrt fa x))"

definition haversine_distance :: "float_arith \<Rightarrow> real \<Rightarrow> real \<Rightarrow> real \<Rightarrow> real \<Rightarrow> exn + real" where
  "haversine_distance fa lat1 lon1 lat2 lon2 =
     (let R = 6371000;
          phi1 = fl_radians fa lat1;
          phi2 = fl_radians fa lat2;
          dphi = fl_radians fa (fl_sub fa lat2 lat1);
          dlambda = fl_radians fa (fl_sub fa lon2 lon1);
          a = fl_add fa
                (fl_pow fa (fl_sin fa (fl_div fa dphi 2)) 2)
                (fl_mul fa (fl_mul fa (fl_cos fa phi1) (fl_cos fa phi2))
                   (fl_pow fa (fl_sin fa (fl_div fa dlambda 2)) 2))
      in case math_sqrt fa a of
           Inl e \<Rightarrow> Inl e
         | Inr sqrt_a \<Rightarrow>
             (case math_sqrt fa (fl_sub fa 1 a) of
                Inl e \<Rightarrow> Inl e
              | Inr sqrt_1a \<Rightarrow> Inr (fl_mul fa R (fl_mul fa 2 (fl_atan2 fa sqrt_a sqrt_1a)))))"

text \<open>\<open>timezone.timedelta(minutes=m)\<close> in microseconds.\<close>

definition timedelta_minutes :: "int \<Rightarrow> int" where
  "timedelta_minutes m = m * 60 * 1000000"

text \<open>The \<open>for\<close> loop of \<open>detect_gps_spam\<close> with its counter.\<close>

fun count_nearby ::
  "float_arith \<Rightarrow> real \<Rightarrow> real \<Rightarrow> real \<Rightarrow> pothole_report list \<Rightarrow> int \<Rightarrow> exn + int" where
  "count_nearby fa lat lon threshold_m [] nearby_count = Inr nearby_count"
| "count_nearby fa lat lon threshold_m (r # rs) nearby_count =
     (case haversine_distance fa lat lon (latitude r) (longitude r) of
        Inl e \<Rightarrow> Inl e
      | Inr distance \<Rightarrow>
          count_nearby fa lat lon threshold_m rs
            (if distance \<le> threshold_m then nearby_count + 1 else nearby_count))"

definition detect_gps_spam ::
  "float_arith \<Rightarrow> datetime \<Rightarrow> store \<Rightarrow> user_id \<Rightarrow> real \<Rightarrow> real \<Rightarrow> real \<Rightarrow> int \<Rightarrow> exn + bool" where
  "detect_gps_spam fa now s usr lat lon threshold_m recent_minutes =
     (let time_limit = now - timedelta_minutes recent_minutes;
          recent_reports = filter (\<lambda>r. user r = Some usr \<and> created_at r \<ge> time_limit) (reports s)
      in case count_nearby fa lat lon threshold_m recent_reports 0 of
           Inl e \<Rightarrow> Inl e
         | Inr nearby_count \<Rightarrow> Inr (nearby_count \<ge> 3))"

text \<open>
  Arithmetic without rounding: every operation gives the exact real result. It is the ideal
  that float arithmetic approximates, not what Python computes.
\<close>

definition atan2 :: "real \<Rightarrow> real \<Rightarrow> real" where
  "atan2 y x =
     (if x > 0 then arctan (y / x)
      else if x < 0 then (if y \<ge> 0 then arctan (y / x) + pi else arctan (y / x) - pi)
      else if y > 0 then pi / 2
      else if y < 0 then - (pi / 2)
      else 0)"

definition exact_arith :: float_arith where
  "exact_arith =
     \<lparr>fl_add = (\<lambda>x y. x + y), fl_sub = (\<lambda>x y. x - y), fl_mul = (\<lambda>x y. x * y),
      fl_div = (\<lambda>x y. x / y), fl_pow = (\<lambda>x n. x ^ n), fl_radians = (\<lambda>x. x * (pi / 180)),
      fl_sin = sin, fl_cos = cos, fl_sqrt = sqrt, fl_atan2 = atan2\<rparr>"

text \<open>
  The haversine formula as the specification words it: the great-circle distance on a sphere of
  radius 6,371,000 m between two points given in degrees.
\<close>

definition great_circle_distance :: "real \<Rightarrow> real \<Rightarrow> real \<Rightarrow> real \<Rightarrow> real" where
  "great_circle_distance lat1 lon1 lat2 lon2 =
     2 * 6371000 *
       arcsin (sqrt ((sin ((lat2 - lat1) * pi / 180 / 2))\<^sup>2
                     + cos (lat1 * pi / 180) * cos (lat2 * pi / 180)
                       * (sin ((lon2 - lon1) * pi / 180 / 2))\<^sup>2))"

section \<open>Content validation, rate limiting and request helpers (core/utils.py)\<close>

text \<open>\<open>ai_bypass\<close> is \<open>getattr(settings, "AI_BYPASS", False)\<close>.\<close>

definition ai_validate_pothole :: "bool \<Rightarrow> bytes \<Rightarrow> bool \<times> real" where
  "ai_validate_pothole ai_bypass image_file =
     (if ai_bypass then (True, 0.99) else (True, 0.95))"

text \<open>
  The cache: \<open>cache.get(key, default)\<close> gives the default for a missing or expired key,
  \<open>cache.set(key, value, timeout)\<close> stores the value until \<open>timeout\<close> seconds from now.
\<close>

definition cache_get :: "datetime \<Rightarrow> store \<Rightarrow> string \<Rightarrow> int \<Rightarrow> int" where
  "cache_get now s k dflt =
     (case cache s k of
        None \<Rightarrow> dflt
      | Some (v, expires) \<Rightarrow> if now < expires then v else dflt)"

definition cache_set :: "datetime \<Rightarrow> store \<Rightarrow> string \<Rightarrow> int \<Rightarrow> int \<Rightarrow> store" where
  "cache_set now s k v timeout = s\<lparr>cache := (cache s)(k \<mapsto> (v, now + timeout * 1000000))\<rparr>"

definition rate_limit :: "datetime \<Rightarrow> store \<Rightarrow> string \<Rightarrow> int \<Rightarrow> int \<Rightarrow> bool \<times> store" where
  "rate_limit now s key limit window_seconds =
     (let cache_key = ''rl:'' @ key;
          count = cache_get now s cache_key 0
      in if count \<ge> limit then (True, s)
         else (False, cache_set now s cache_key (count + 1) window_seconds))"

text \<open>
  The part of the request the view reads: the authenticated user and three entries of
  \<open>request.META\<close>.
\<close>

record request =
  auth :: user_id
  HTTP_X_FORWARDED_FOR :: "string option"
  REMOTE_ADDR :: "string option"
  HTTP_USER_AGENT :: "string option"

text \<open>\<open>str.split(sep)\<close> for a one-character separator, and \<open>str.strip()\<close> on ASCII text.\<close>

fun split_on :: "char \<Rightarrow> string \<Rightarrow> string list" where
  "split_on sep [] = [[]]"
| "split_on sep (c # cs) =
     (if c = sep then [] # split_on sep cs
      else case split_on sep cs of
             [] \<Rightarrow> [[c]]
           | w # ws \<Rightarrow> (c # w) # ws)"

definition is_space :: "char \<Rightarrow> bool" where
  "is_space c = (c \<in> set [CHR '' '', CHR 0x09, CHR 0x0A, CHR 0x0B, CHR 0x0C, CHR 0x0D,
                            CHR 0x1C, CHR 0x1D, CHR 0x1E, CHR 0x1F])"

definition strip :: "string \<Rightarrow> string" where
  "strip s = rev (dropWhile is_space (rev (dropWhile is_space s)))"

definition get_client_ip :: "request \<Rightarrow> string option" where
  "get_client_ip req =
     (case HTTP_X_FORWARDED_FOR req of
        None \<Rightarrow> REMOTE_ADDR req
      | Some xff \<Rightarrow>
          if xff = [] then REMOTE_ADDR req
          else Some (strip (hd (split_on (CHR '','') xff))))"

text \<open>\<open>str(x)\<close> for a non-negative integer and for an optional string.\<close>

function str_nat :: "nat \<Rightarrow> string" where
  "str_nat n =
     (if n < 10 then [''0123456789'' ! n] else str_nat (n div 10) @ [''0123456789'' ! (n mod 10)])"
  by pat_completeness auto
termination
  by (relation "measure (\<lambda>n. n)") auto

declare str_nat.simps [simp del]

definition str_opt :: "string option \<Rightarrow> string" where
  "str_opt x = (case x of None \<Rightarrow> ''None'' | Some v \<Rightarrow> v)"

text \<open>\<open>sha256_hexdigest\<close> stands for \<open>hashlib.sha256(raw.encode()).hexdigest()\<close>.\<close>

definition generate_device_fingerprint :: "(string \<Rightarrow> string) \<Rightarrow> request \<Rightarrow> string" where
  "generate_device_fingerprint sha256_hexdigest req =
     (let ua = (case HTTP_USER_AGENT req of None \<Rightarrow> [] | Some v \<Rightarrow> v);
          ip = get_client_ip req;
          raw = ua @ '':'' @ str_opt ip
      in sha256_hexdigest raw)"

section \<open>Report submission (core/api.py, submit_report)\<close>

record report_submit_request =
  image_base64 :: string
  payload_latitude :: real
  payload_longitude :: real
  payload_region :: string
  payload_severity :: int
  payload_device_id :: "string option"

text \<open>
  What the view takes from outside the repository: float arithmetic, the clock, the
  \<open>AI_BYPASS\<close> setting, \<open>base64.b64decode\<close> (nothing when it raises), Pillow, SHA-256 and
  the fresh \<open>uuid4\<close> that becomes the key of the new report.
\<close>

record environ =
  env_float :: float_arith
  env_now :: datetime
  env_ai_bypass :: bool
  env_b64decode :: "string \<Rightarrow> bytes option"
  env_image_open :: "bytes \<Rightarrow> int list option"
  env_sha256 :: "string \<Rightarrow> string"
  env_uuid4 :: string

definition RegionChoices :: "string list" where
  "RegionChoices =
     [''Greater Accra'', ''Ashanti'', ''Eastern'', ''Western'', ''Western North'', ''Central'',
      ''Volta'', ''Oti'', ''Northern'', ''Savannah'', ''North East'', ''Upper East'',
      ''Upper West'', ''Bono'', ''Bono East'', ''Ahafo'']"

text \<open>\<open>PotholeReport.objects.create\<close> inserts a row; a repeated primary key is refused.\<close>

definition create_report :: "store \<Rightarrow> pothole_report \<Rightarrow> exn + store" where
  "create_report s r =
     (if list_ex (\<lambda>x. report_id x = report_id r) (reports s) then Inl IntegrityError
      else Inr (s\<lparr>reports := reports s @ [r]\<rparr>))"

text \<open>
  The \<open>try\<close> block of the view holds the split, the base64 decoding and the \<open>BytesIO\<close>
  wrapper; \<open>calculate_phash\<close> is called after it, outside any handler. The fields that the
  view does not pass to \<open>create\<close> take the defaults of the model.
\<close>

definition submit_report ::
  "environ \<Rightarrow> store \<Rightarrow> request \<Rightarrow> report_submit_request \<Rightarrow> pothole_report response \<times> store" where
  "submit_report env s req payload =
     (let usr = auth req;
          client_ip = get_client_ip req;
          (limited_user, s1) = rate_limit (env_now env) s (''rep:user:'' @ str_nat usr) 3 60
      in if limited_user then (ErrorResponse 429 ''Too many reports. Slow down.'', s1)
         else
           (let (limited_ip, s2) =
                  rate_limit (env_now env) s1 (''rep:ip:'' @ str_opt client_ip) 10 60
            in if limited_ip then (ErrorResponse 429 ''Too many reports from this IP.'', s2)
               else
                 (case detect_gps_spam (env_float env) (env_now env) s2 usr
                         (payload_latitude payload) (payload_longitude payload) 100 5 of
                    Inl e \<Rightarrow> (Raised e, s2)
                  | Inr spam \<Rightarrow>
                      if spam then
                        (ErrorResponse 400
                           ''Too many reports around the same location in a short time.'', s2)
                      else if payload_region payload \<notin> set RegionChoices then
                        (ErrorResponse 400 ''Invalid region.'', s2)
                      else
                        (case env_b64decode env
                                (last (split_on (CHR '','') (image_base64 payload))) of
                           None \<Rightarrow> (ErrorResponse 400 ''Invalid image data.'', s2)
                         | Some raw_image \<Rightarrow>
                             (case calculate_phash (env_image_open env) raw_image of
                                Inl e \<Rightarrow> (Raised e, s2)
                              | Inr new_hash \<Rightarrow>
                                  if list_ex (\<lambda>r. image_hash r = new_hash) (reports s2) then
                                    (ErrorResponse 400 ''Duplicate pothole image.'', s2)
                                  else
                                    (let (valid, score) =
                                           ai_validate_pothole (env_ai_bypass env) raw_image;
                                         fingerprint =
                                           generate_device_fingerprint (env_sha256 env) req;
                                         dev = (case payload_device_id payload of
                                                  None \<Rightarrow> fingerprint
                                                | Some d \<Rightarrow> if d = [] then fingerprint else d);
                                         report =
                                           \<lparr>report_id = env_uuid4 env,
                                            user = Some usr,
                                            image_hash = new_hash,
                                            latitude = payload_latitude payload,
                                            longitude = payload_longitude payload,
                                            region = payload_region payload,
                                            severity = payload_severity payload,
                                            ai_valid = valid,
                                            ai_score = Some score,
                                            status = Pending,
                                            is_spam = (\<not> valid),
                                            submitted_ip = client_ip,
                                            device_id = dev,
                                            is_synced = True,
                                            approved_by = None,
                                            approved_at = None,
                                            rejection_reason = [],
                                            points_awarded = 0,
                                            created_at = env_now env\<rparr>
                                     in case create_report s2 report of
                                          Inl e \<Rightarrow> (Raised e, s2)
                                        | Inr s3 \<Rightarrow> (Success report, s3)))))))"

section \<open>Auxiliary notions and sample data\<close>

text \<open>Python's \<open>sub in s\<close> on strings.\<close>

fun str_contains :: "string \<Rightarrow> string \<Rightarrow> bool" where
  "str_contains [] sub = (sub = [])"
| "str_contains (c # cs) sub = (prefix sub (c # cs) \<or> str_contains cs sub)"

text \<open>
  A user with 1000 points (the profile of tests/test\_rewards.py) and one pending report at the
  coordinates of tests/test\_reports.py.
\<close>

definition demo_profile :: user_profile where
  "demo_profile = \<lparr>phone = ''0244000000'', is_verified = False, points = 1000\<rparr>"

definition demo_report :: pothole_report where
  "demo_report =
     \<lparr>report_id = ''7f1c'', user = Some 1, image_hash = ''00ff'',
      latitude = 5.6037, longitude = - 0.1870, region = ''Greater Accra'', severity = 5,
      ai_valid = True, ai_score = Some 0.95, status = Pending, is_spam = False,
      submitted_ip = Some ''127.0.0.1'', device_id = ''device'', is_synced = True,
      approved_by = None, approved_at = None, rejection_reason = [],
      points_awarded = 0, created_at = 0\<rparr>"

definition demo_store :: store where
  "demo_store =
     \<lparr>profiles = [1 \<mapsto> demo_profile], reports = [demo_report], redemptions = [],
      cache = Map.empty\<rparr>"

text \<open>
  The sample report moved to latitude 0, longitude 0; it was created at time 0 and stays
  recent until 300 seconds later.
\<close>

definition origin_report :: pothole_report where
  "origin_report = demo_report\<lparr>latitude := 0, longitude := 0\<rparr>"

text \<open>
  A pending request of user 1 for 500 points, as \<open>redeem_points\<close> creates it, and two payout
  providers: one that accepts every request and answers with a request id, one that is down.
\<close>

definition demo_redemption :: redemption_request where
  "demo_redemption =
     \<lparr>redemption_id = 1, redemption_user = 1, redemption_points = 500, airtime_amount = 5,
      redemption_status = Pending, mtn_phone = ''0244000000'',
      reference = ''RDM-20261104-0A1B2C'',
      redemption_approved_by = None, redemption_approved_at = None\<rparr>"

definition post_accepts :: "string \<Rightarrow> int \<Rightarrow> http_outcome" where
  "post_accepts phone_no amount =
     Json None [Some (if amount = 5 then ''ATQid_5'' else ''ATQid_10'')]"

definition post_down :: "string \<Rightarrow> int \<Rightarrow> http_outcome" where
  "post_down phone_no amount = PostRaised"

text \<open>A provider that accepts the request but whose answer carries no request id.\<close>

definition post_without_id :: "string \<Rightarrow> int \<Rightarrow> http_outcome" where
  "post_without_id phone_no amount = Json None [None]"

text \<open>
  Two requests of user 1 against the same balance of 1000 points: one for 1000 points and one
  for 500 points.
\<close>

definition first_request :: redemption_request where
  "first_request = demo_redemption\<lparr>redemption_points := 1000, airtime_amount := 10\<rparr>"

definition second_request :: redemption_request where
  "second_request = demo_redemption\<lparr>redemption_id := 2, reference := ''RDM-20261104-FFFFFF''\<rparr>"

definition first_settled_store :: store where
  "first_settled_store =
     demo_store\<lparr>profiles := [1 \<mapsto> demo_profile\<lparr>points := 0\<rparr>],
                redemptions :=
                  [first_request\<lparr>redemption_status := Approved, reference := ''ATQid_10'',
                                 redemption_approved_by := Some 9,
                                 redemption_approved_at := Some 0\<rparr>,
                   second_request]\<rparr>"

text \<open>
  A candidate point and a point almost opposite to it on the globe, with the doubles that
  CPython computes on the way through \<open>haversine_distance\<close> for this pair: the four
  coordinates (-43.5577, -28.3277, 43.5577, 151.6723 as doubles), then \<open>phi1\<close>, \<open>phi2\<close>,
  \<open>lat2 - lat1\<close>, \<open>dphi\<close>, \<open>dlambda\<close>, \<open>sin(dphi / 2)\<close> and its square, the cosine of
  both latitudes and its square, \<open>dlambda / 2\<close> and \<open>a\<close>, which is the least double
  above 1. Each value is written as the fraction that the double stands for.
\<close>

definition cand_lat :: real where
  "cand_lat = - (3065100648267435 / 70368744177664)"

definition cand_lon :: real where
  "cand_lon = - (3986769348883225 / 140737488355328)"

definition far_lat :: real where
  "far_lat = 3065100648267435 / 70368744177664"

definition far_lon :: real where
  "far_lon = 2668247319384477 / 17592186044416"

definition d_phi1 :: real where
  "d_phi1 = - (6847500571811759 / 9007199254740992)"

definition d_phi2 :: real where
  "d_phi2 = 6847500571811759 / 9007199254740992"

definition d_dlat :: real where
  "d_dlat = 3065100648267435 / 35184372088832"

definition d_dphi :: real where
  "d_dphi = 6847500571811759 / 4503599627370496"

definition d_dlambda :: real where
  "d_dlambda = 884279719003555 / 281474976710656"

definition d_sin_dphi :: real where
  "d_sin_dphi = 775840420243213 / 1125899906842624"

definition d_sin2_dphi :: real where
  "d_sin2_dphi = 8553916439995609 / 18014398509481984"

definition d_cos_phi :: real where
  "d_cos_phi = 6527344293269975 / 9007199254740992"

definition d_coscos :: real where
  "d_coscos = 4730241034743189 / 9007199254740992"

definition d_half_dlambda :: real where
  "d_half_dlambda = 884279719003555 / 562949953421312"

definition d_a :: real where
  "d_a = 4503599627370497 / 4503599627370496"

text \<open>
  \<open>agrees_with_doubles\<close> lists these results operation by operation: it holds of double
  arithmetic, and of every arithmetic that rounds these eighteen operations as doubles do.
  \<open>dphi / 2\<close> is the double of \<open>phi2\<close>, and \<open>lon2 - lon1\<close> rounds to 180.
\<close>

definition agrees_with_doubles :: "float_arith \<Rightarrow> bool" where
  "agrees_with_doubles fa =
     (fl_radians fa cand_lat = d_phi1
      \<and> fl_radians fa far_lat = d_phi2
      \<and> fl_sub fa far_lat cand_lat = d_dlat
      \<and> fl_radians fa d_dlat = d_dphi
      \<and> fl_sub fa far_lon cand_lon = 180
      \<and> fl_radians fa 180 = d_dlambda
      \<and> fl_div fa d_dphi 2 = d_phi2
      \<and> fl_sin fa d_phi2 = d_sin_dphi
      \<and> fl_pow fa d_sin_dphi 2 = d_sin2_dphi
      \<and> fl_cos fa d_phi1 = d_cos_phi
      \<and> fl_cos fa d_phi2 = d_cos_phi
      \<and> fl_mul fa d_cos_phi d_cos_phi = d_coscos
      \<and> fl_div fa d_dlambda 2 = d_half_dlambda
      \<and> fl_sin fa d_half_dlambda = 1
      \<and> fl_pow fa 1 2 = 1
      \<and> fl_mul fa d_coscos 1 = d_coscos
      \<and> fl_add fa d_sin2_dphi d_coscos = d_a
      \<and> fl_sub fa 1 d_a = - (1 / 4503599627370496))"

text \<open>
  An arithmetic that gives the recorded doubles on the recorded arguments; elsewhere it is
  filled in with the exact result, on which nothing below depends.
\<close>

definition double_trace :: float_arith where
  "double_trace =
     \<lparr>fl_add = (\<lambda>x y. if x = d_sin2_dphi \<and> y = d_coscos then d_a else x + y),
      fl_sub = (\<lambda>x y. if x = far_lat \<and> y = cand_lat then d_dlat
                      else if x = far_lon \<and> y = cand_lon then 180
                      else x - y),
      fl_mul = (\<lambda>x y. if x = d_cos_phi \<and> y = d_cos_phi then d_coscos else x * y),
      fl_div = (\<lambda>x y. if x = d_dphi \<and> y = 2 then d_phi2
                      else if x = d_dlambda \<and> y = 2 then d_half_dlambda
                      else x / y),
      fl_pow = (\<lambda>x n. if x = d_sin_dphi \<and> n = 2 then d_sin2_dphi else x ^ n),
      fl_radians = (\<lambda>x. if x = cand_lat then d_phi1
                        else if x = far_lat then d_phi2
                        else if x = d_dlat then d_dphi
                        else if x = 180 then d_dlambda
                        else x * (pi / 180)),
      fl_sin = (\<lambda>x. if x = d_phi2 then d_sin_dphi
                    else if x = d_half_dlambda then 1
                    else sin x),
      fl_cos = (\<lambda>x. if x = d_phi1 \<or> x = d_phi2 then d_cos_phi else cos x),
      fl_sqrt = sqrt,
      fl_atan2 = atan2\<rparr>"

text \<open>
  A report of user 1 at the far point, created at time 0, alone in the store.
\<close>

definition far_report :: pothole_report where
  "far_report = demo_report\<lparr>latitude := far_lat, longitude := far_lon\<rparr>"

definition far_store :: store where
  "far_store = demo_store\<lparr>reports := [far_report]\<rparr>"

text \<open>
  A request of user 1 and two submissions at the coordinates of the sample report, 1000 seconds
  after it: one whose payload decodes to the five bytes of the word hello, which is no image,
  and one whose payload is the 1 by 1 white PNG file of tests/test\_reports.py (68 bytes, one
  pixel of grey level 255), which Pillow stretches to a grid of 1024 pixels of level 255. The
  digest is the SHA-256 of the user agent and address of that request.
\<close>

definition demo_request :: request where
  "demo_request =
     \<lparr>auth = 1, HTTP_X_FORWARDED_FOR = None, REMOTE_ADDR = Some ''127.0.0.1'',
      HTTP_USER_AGENT = Some ''test''\<rparr>"

definition white_png :: bytes where
  "white_png =
     [137, 80, 78, 71, 13, 10, 26, 10, 0, 0, 0, 13, 73, 72, 68, 82, 0, 0, 0, 1, 0, 0,
      0, 1, 8, 4, 0, 0, 0, 181, 28, 12, 2, 0, 0, 0, 11, 73, 68, 65, 84, 120, 218, 99,
      252, 255, 31, 0, 3, 3, 2, 0, 237, 24, 149, 109, 0, 0, 0, 0, 73, 69, 78, 68, 174,
      66, 96, 130]"

definition white_png_base64 :: string where
  "white_png_base64 =
     ''iVBORw0KGgoAAAANSUhEUgAAAAEAAAABCAQAAAC1HAwCAAAAC0lEQVR42mP8/x8AAwMCAO0YlW0AAAAASUVORK5CYII=''"

definition demo_env :: environ where
  "demo_env =
     \<lparr>env_float = double_trace,
      env_now = 1000000000,
      env_ai_bypass = False,
      env_b64decode =
        (\<lambda>data. if data = ''aGVsbG8='' then Some [104, 101, 108, 108, 111]
               else if data = white_png_base64 then Some white_png
               else None),
      env_image_open =
        (\<lambda>raw. if raw = white_png then Some (replicate 1024 255) else None),
      env_sha256 =
        (\<lambda>raw. if raw = ''test:127.0.0.1''
              then ''48ce6643b7557860363f1d4f8b481de30bde9f16af9fb1f7a9ee8e0e6e2e0b85''
              else []),
      env_uuid4 = ''9e2d''\<rparr>"

definition text_payload :: report_submit_request where
  "text_payload =
     \<lparr>image_base64 = ''data:image/png;base64,aGVsbG8='',
      payload_latitude = 5.6037, payload_longitude = - 0.1870,
      payload_region = ''Greater Accra'', payload_severity = 5, payload_device_id = None\<rparr>"

definition image_payload :: report_submit_request where
  "image_payload = text_payload\<lparr>image_base64 := ''data:image/png;base64,'' @ white_png_base64\<rparr>"

text \<open>The sample store once the two rate-limit counters of that request are set.\<close>

definition demo_store_user_counted :: store where
  "demo_store_user_counted =
     demo_store\<lparr>cache := [''rl:rep:user:1'' \<mapsto> (1, 1060000000)]\<rparr>"

definition demo_store_counted :: store where
  "demo_store_counted =
     demo_store\<lparr>cache := [''rl:rep:user:1'' \<mapsto> (1, 1060000000),
                           ''rl:rep:ip:127.0.0.1'' \<mapsto> (1, 1060000000)]\<rparr>"

text \<open>The report that the submission with the white image creates.\<close>

definition submitted_report :: pothole_report where
  "submitted_report =
     \<lparr>report_id = ''9e2d'', user = Some 1, image_hash = replicate 256 (CHR ''f''),
      latitude = 5.6037, longitude = - 0.1870, region = ''Greater Accra'', severity = 5,
      ai_valid = True, ai_score = Some 0.95, status = Pending, is_spam = False,
      submitted_ip = Some ''127.0.0.1'', device_id =
        ''48ce6643b7557860363f1d4f8b481de30bde9f16af9fb1f7a9ee8e0e6e2e0b85'', is_synced = True,
      approved_by = None, approved_at = None, rejection_reason = [],
      points_awarded = 0, created_at = 1000000000\<rparr>"

section \<open>Saving and loading rows\<close>

lemma find_map_replace:
  "list_ex (\<lambda>x. f x = k) xs \<Longrightarrow> f r = k \<Longrightarrow>
   find (\<lambda>x. f x = k) (map (\<lambda>x. if f x = k then r else x) xs) = Some r"
  by (induction xs) auto

lemma find_append_new:
  "\<not> list_ex (\<lambda>x. f x = k) xs \<Longrightarrow> f r = k \<Longrightarrow> find (\<lambda>x. f x = k) (xs @ [r]) = Some r"
  by (induction xs) auto

lemma get_report_save_report: "report_id r = i \<Longrightarrow> get_report (save_report s r) i = Some r"
  by (auto simp add: get_report_def save_report_def find_map_replace find_append_new)

lemma profiles_save_report: "profiles (save_report s r) = profiles s"
  by (simp add: save_report_def)

section \<open>Points award\<close>

text \<open>
  C3. For a report that carries no points yet and whose owner has a profile, one call of
  \<open>award_report_points\<close> adds exactly 50 to the owner's balance (no other balance changes), sets
  \<open>points_awarded\<close> to 50 and saves the report; a second call on the same report changes neither
  the store nor the report.
\<close>

theorem award_report_points_once:
  assumes "points_awarded report = 0" and "user report = Some u" and "profiles s u = Some p"
  shows "\<exists>s1 report1.
           award_report_points s report = Inr (s1, report1)
         \<and> profiles s1 = (profiles s)(u \<mapsto> p\<lparr>points := points p + 50\<rparr>)
         \<and> report1 = report\<lparr>points_awarded := 50\<rparr>
         \<and> get_report s1 (report_id report) = Some report1
         \<and> award_report_points s1 report1 = Inr (s1, report1)"
  using assms
  by (simp add: award_report_points_def Let_def get_report_save_report profiles_save_report
      save_profile_def)

text \<open>The sample report of user 1, whose balance goes from 1000 to 1050 once.\<close>

theorem award_report_points_once_witness:
  "points_awarded demo_report = 0 \<and> user demo_report = Some 1
   \<and> profiles demo_store 1 = Some demo_profile
   \<and> (\<exists>s1 report1.
           award_report_points demo_store demo_report = Inr (s1, report1)
         \<and> profiles s1 = (profiles demo_store)(1 \<mapsto> demo_profile\<lparr>points := 1050\<rparr>)
         \<and> report1 = demo_report\<lparr>points_awarded := 50\<rparr>
         \<and> get_report s1 (report_id demo_report) = Some report1
         \<and> award_report_points s1 report1 = Inr (s1, report1))"
proof -
  have h1: "points_awarded demo_report = 0" by (simp add: demo_report_def)
  have h2: "user demo_report = Some 1" by (simp add: demo_report_def)
  have h3: "profiles demo_store 1 = Some demo_profile" by (simp add: demo_store_def)
  have h4: "points demo_profile + 50 = 1050" by (simp add: demo_profile_def)
  show ?thesis
    using award_report_points_once [OF h1 h2 h3] h1 h2 h3 h4 by simp
qed

section \<open>Review of reports\<close>

text \<open>The approve action skips every report that is not pending.\<close>

lemma approve_reports_terminal_noop:
  "list_all (\<lambda>r. status r \<noteq> Pending) queryset \<Longrightarrow>
   approve_reports admin_user now s queryset = (s, None)"
  by (induction queryset) auto

text \<open>
  C2. The reject action has no such guard. For every approved report, \<open>reject_reports\<close>
  stores the report as rejected, while the points awarded, the time of approval and every
  balance stay as they are: a terminal status is changed.
\<close>

theorem reject_reports_overrides_approved:
  assumes "status report = Approved"
  shows "\<exists>r'. get_report (reject_reports s [report]) (report_id report) = Some r'
            \<and> status r' = Rejected
            \<and> points_awarded r' = points_awarded report
            \<and> approved_at r' = approved_at report
            \<and> profiles (reject_reports s [report]) = profiles s"
  by (simp add: get_report_save_report profiles_save_report)

text \<open>The sample report, approved and credited with 50 points, then rejected.\<close>

theorem reject_reports_overrides_approved_witness:
  "status (demo_report\<lparr>status := Approved, points_awarded := 50\<rparr>) = Approved
   \<and> get_report
        (reject_reports
           (demo_store\<lparr>reports := [demo_report\<lparr>status := Approved, points_awarded := 50\<rparr>]\<rparr>)
           [demo_report\<lparr>status := Approved, points_awarded := 50\<rparr>])
        (report_id demo_report)
      = Some (demo_report\<lparr>status := Rejected, points_awarded := 50,
                           rejection_reason := ''Rejected by admin.''\<rparr>)"
proof -
  have h: "status (demo_report\<lparr>status := Approved, points_awarded := 50\<rparr>) = Approved"
    by simp
  have e: "rejection_reason demo_report = []" "report_id demo_report = ''7f1c''"
    by (simp_all add: demo_report_def)
  show ?thesis
    using reject_reports_overrides_approved [OF h,
        of "demo_store\<lparr>reports := [demo_report\<lparr>status := Approved, points_awarded := 50\<rparr>]\<rparr>"] e
    by (simp add: get_report_save_report)
qed

text \<open>
  C7 as stated fails on the reason: approving the sample report with \<open>ai_valid\<close> false stores it
  as rejected, and the reason recorded does not contain the word "invalid".
\<close>

theorem approve_invalid_reason_counterexample:
  "get_report
     (fst (approve_reports 9 0
             (demo_store\<lparr>reports := [demo_report\<lparr>ai_valid := False\<rparr>]\<rparr>)
             [demo_report\<lparr>ai_valid := False\<rparr>]))
     (report_id demo_report)
   = Some (demo_report\<lparr>ai_valid := False, status := Rejected,
                        rejection_reason := ''AI rejected this image as non-pothole.''\<rparr>)
   \<and> \<not> str_contains ''AI rejected this image as non-pothole.'' ''invalid''"
  by (simp add: demo_store_def demo_report_def get_report_def save_report_def)

text \<open>
  C7, amended. For every pending report whose \<open>ai_valid\<close> flag is false, the approve action
  saves the report as rejected with the reason "AI rejected this image as non-pothole." and goes
  on with the next report. Nothing else of the report changes (\<open>approved_at\<close>, \<open>approved_by\<close>
  and \<open>points_awarded\<close> keep their values), no balance changes and no exception is raised.
\<close>

theorem approve_invalid_pending_rejected:
  assumes "status report = Pending" and "\<not> ai_valid report"
  shows "approve_reports admin_user now s (report # queryset)
           = approve_reports admin_user now
               (save_report s (report\<lparr>status := Rejected,
                   rejection_reason := ''AI rejected this image as non-pothole.''\<rparr>)) queryset
       \<and> (\<exists>s'. approve_reports admin_user now s [report] = (s', None)
              \<and> profiles s' = profiles s
              \<and> get_report s' (report_id report)
                  = Some (report\<lparr>status := Rejected,
                       rejection_reason := ''AI rejected this image as non-pothole.''\<rparr>))"
  using assms by (simp add: get_report_save_report profiles_save_report)

theorem approve_invalid_pending_rejected_witness:
  "status (demo_report\<lparr>ai_valid := False\<rparr>) = Pending
   \<and> \<not> ai_valid (demo_report\<lparr>ai_valid := False\<rparr>)
   \<and> (\<exists>s'. approve_reports 9 0 demo_store [demo_report\<lparr>ai_valid := False\<rparr>] = (s', None)
          \<and> profiles s' = profiles demo_store
          \<and> get_report s' (report_id demo_report)
              = Some (demo_report\<lparr>ai_valid := False, status := Rejected,
                   rejection_reason := ''AI rejected this image as non-pothole.''\<rparr>))"
proof -
  have h1: "status (demo_report\<lparr>ai_valid := False\<rparr>) = Pending" by (simp add: demo_report_def)
  have h2: "\<not> ai_valid (demo_report\<lparr>ai_valid := False\<rparr>)" by simp
  show ?thesis
    using approve_invalid_pending_rejected [OF h1 h2, of 9 0 demo_store "[]"] h1 h2 by simp
qed

section \<open>Redemption\<close>

lemma get_redemption_save_redemption:
  "redemption_id i = k \<Longrightarrow>
   get_redemption (save_redemption s i) k = Some (redemption_request.truncate i)"
  by (auto simp add: get_redemption_def save_redemption_def Let_def find_map_replace
      find_append_new redemption_request.truncate_def)

lemma profiles_save_redemption: "profiles (save_redemption s i) = profiles s"
  by (simp add: save_redemption_def Let_def)

lemma save_redemption_ignores_attr:
  "save_redemption s (i\<lparr>rejection_reason_attr := a\<rparr>) = save_redemption s i"
  by (simp add: save_redemption_def Let_def redemption_request.truncate_def)

lemma reference_taken_save_profile:
  "reference_taken (save_profile s u p) k ref = reference_taken s k ref"
  by (simp add: reference_taken_def save_profile_def)

text \<open>Settlement of one pending request, when the payout succeeds and when it fails.\<close>

lemma approve_redemption_success:
  assumes "redemption_status i = Pending"
    and "send_airtime_to_user post (mtn_phone i) (airtime_amount i) = (True, ref)"
    and "profiles s (redemption_user i) = Some p"
    and "\<not> reference_taken s (redemption_id i) ref"
  shows "approve_redemption post admin_user now s [i]
         = (save_redemption
              (save_profile s (redemption_user i)
                 (p\<lparr>points := max 0 (points p - redemption_points i)\<rparr>))
              (i\<lparr>redemption_status := Approved, reference := ref,
                  redemption_approved_by := Some admin_user,
                  redemption_approved_at := Some now\<rparr>),
            [i\<lparr>redemption_status := Approved, reference := ref,
                redemption_approved_by := Some admin_user,
                redemption_approved_at := Some now\<rparr>],
            None)"
  using assms
  by (simp add: Let_def save_redemption_checked_def reference_taken_save_profile)

lemma approve_redemption_failure:
  assumes "redemption_status i = Pending"
    and "send_airtime_to_user post (mtn_phone i) (airtime_amount i) = (False, ref)"
    and "\<not> reference_taken s (redemption_id i) (reference i)"
  shows "approve_redemption post admin_user now s [i]
         = (save_redemption s (i\<lparr>redemption_status := Rejected\<rparr>),
            [i\<lparr>redemption_status := Rejected,
                rejection_reason_attr := Some ''Airtime API error. Try again.''\<rparr>],
            None)"
  using assms
  by (simp add: Let_def save_redemption_checked_def save_redemption_ignores_attr)

text \<open>
  When the payout succeeds with a reference that another request already holds, the balance is
  debited, saving the request raises \<open>IntegrityError\<close> and the stored requests stay as
  they were.
\<close>

lemma approve_redemption_repeated_reference:
  assumes "redemption_status i = Pending"
    and "send_airtime_to_user post (mtn_phone i) (airtime_amount i) = (True, ref)"
    and "profiles s (redemption_user i) = Some p"
    and "reference_taken s (redemption_id i) ref"
  shows "approve_redemption post admin_user now s (i # queryset)
         = (save_profile s (redemption_user i)
              (p\<lparr>points := max 0 (points p - redemption_points i)\<rparr>),
            [], Some IntegrityError)"
    and "redemptions (save_profile s (redemption_user i)
              (p\<lparr>points := max 0 (points p - redemption_points i)\<rparr>)) = redemptions s"
proof -
  show "approve_redemption post admin_user now s (i # queryset)
         = (save_profile s (redemption_user i)
              (p\<lparr>points := max 0 (points p - redemption_points i)\<rparr>),
            [], Some IntegrityError)"
    using assms
    by (simp add: Let_def save_redemption_checked_def reference_taken_save_profile)
  show "redemptions (save_profile s (redemption_user i)
              (p\<lparr>points := max 0 (points p - redemption_points i)\<rparr>)) = redemptions s"
    by (simp add: save_profile_def)
qed

text \<open>
  What a successful payout returns as reference: the \<open>requestId\<close> of the first entry of the
  answer, or the empty text when that entry has none.
\<close>

lemma send_airtime_to_user_True:
  assumes "send_airtime_to_user post phone_no amount = (True, ref)"
  shows "\<exists>error_message e entries.
           post phone_no amount = Json error_message (e # entries)
         \<and> ref = (case e of None \<Rightarrow> [] | Some request_id \<Rightarrow> request_id)"
  using assms
  by (auto simp add: send_airtime_to_user_def split: http_outcome.splits if_splits list.splits)

lemma redeem_points_Success:
  assumes "redeem_points date_part uuid_hex s usr payload = (Success r, s')"
  shows "\<exists>p. profiles s usr = Some p \<and> 0 < redemption_points r
           \<and> redemption_points r mod 500 = 0 \<and> redemption_points r \<le> points p
           \<and> redemption_points r = payload_points payload
           \<and> airtime_amount r = (redemption_points r div 500) * 5
           \<and> redemption_status r = Pending
           \<and> reference r = generate_reference date_part uuid_hex
           \<and> s' = save_redemption s (load_redemption r)"
  using assms
  by (auto simp add: redeem_points_def Let_def save_redemption_checked_def
      split: option.splits if_splits sum.splits)

lemma generate_reference_nonempty: "generate_reference date_part uuid_hex \<noteq> []"
  by (simp add: generate_reference_def)

lemmas demo_defs = demo_store_def demo_profile_def demo_redemption_def first_request_def second_request_def
  first_settled_store_def

lemmas redemption_eval = send_airtime_to_user_def post_accepts_def post_down_def get_redemption_def
      save_redemption_checked_def reference_taken_def save_redemption_def load_redemption_def save_profile_def
      redemption_request.truncate_def redemption_request.extend_def redemption_instance.fields_def

text \<open>
  C1, amended. The balance is compared with the requested points when the request is created:
  a request that \<open>redeem_points\<close> accepts asks for no more than the owner's balance at that
  moment, is pending and leaves every balance as it was. Settlement does not compare again: a
  pending request whose owner has a profile and whose payout succeeds with a reference that no
  other request holds is stored as approved whatever the owner's balance is, and the balance
  becomes \<open>max 0 (balance - points)\<close>.
\<close>

theorem sufficiency_checked_at_creation_only:
  assumes created: "redeem_points date_part uuid_hex s0 usr payload = (Success r, s0')"
    and pending: "redemption_status i = Pending"
    and paid: "send_airtime_to_user post (mtn_phone i) (airtime_amount i) = (True, ref)"
    and owner: "profiles s (redemption_user i) = Some p"
    and fresh: "\<not> reference_taken s (redemption_id i) ref"
  shows "(\<exists>p0. profiles s0 usr = Some p0 \<and> redemption_points r \<le> points p0)
       \<and> redemption_status r = Pending
       \<and> profiles s0' = profiles s0
       \<and> (\<exists>s' i'. approve_redemption post admin_user now s [i] = (s', [i'], None)
              \<and> redemption_status i' = Approved
              \<and> get_redemption s' (redemption_id i) = Some (redemption_request.truncate i')
              \<and> profiles s' (redemption_user i)
                  = Some (p\<lparr>points := max 0 (points p - redemption_points i)\<rparr>))"
proof -
  from redeem_points_Success [OF created] obtain p0 where
    "profiles s0 usr = Some p0" "redemption_points r \<le> points p0"
    "redemption_status r = Pending" "s0' = save_redemption s0 (load_redemption r)"
    by blast
  moreover have "profiles (save_redemption s0 (load_redemption r)) = profiles s0"
    by (rule profiles_save_redemption)
  ultimately have part1: "(\<exists>p0. profiles s0 usr = Some p0 \<and> redemption_points r \<le> points p0)
       \<and> redemption_status r = Pending \<and> profiles s0' = profiles s0"
    by auto
  have part2: "\<exists>s' i'. approve_redemption post admin_user now s [i] = (s', [i'], None)
              \<and> redemption_status i' = Approved
              \<and> get_redemption s' (redemption_id i) = Some (redemption_request.truncate i')
              \<and> profiles s' (redemption_user i)
                  = Some (p\<lparr>points := max 0 (points p - redemption_points i)\<rparr>)"
    unfolding approve_redemption_success [OF pending paid owner fresh]
    by (simp add: get_redemption_save_redemption profiles_save_redemption save_profile_def)
  from part1 part2 show ?thesis by simp
qed

text \<open>
  The second request is accepted against a balance of 1000 and settled against a balance of 0.
\<close>

theorem sufficiency_checked_at_creation_only_witness:
  "redeem_points ''20261104'' ''ffffff00'' (demo_store\<lparr>redemptions := [first_request]\<rparr>) 1
       \<lparr>payload_points = 500, payload_mtn_phone = ''0244000000''\<rparr>
     = (Success second_request, demo_store\<lparr>redemptions := [first_request, second_request]\<rparr>)
   \<and> redemption_status (load_redemption second_request) = Pending
   \<and> send_airtime_to_user post_accepts (mtn_phone (load_redemption second_request))
        (airtime_amount (load_redemption second_request)) = (True, ''ATQid_5'')
   \<and> profiles first_settled_store (redemption_user (load_redemption second_request))
        = Some (demo_profile\<lparr>points := 0\<rparr>)
   \<and> \<not> reference_taken first_settled_store (redemption_id (load_redemption second_request)) ''ATQid_5''
   \<and> redemption_points second_request \<le> 1000
   \<and> (\<exists>s' i'. approve_redemption post_accepts 9 0 first_settled_store [load_redemption second_request]
                   = (s', [i'], None)
              \<and> redemption_status i' = Approved
              \<and> get_redemption s' 2 = Some (redemption_request.truncate i')
              \<and> profiles s' 1 = Some (demo_profile\<lparr>points := 0\<rparr>))"
proof -
  have h1: "redeem_points ''20261104'' ''ffffff00'' (demo_store\<lparr>redemptions := [first_request]\<rparr>) 1
       \<lparr>payload_points = 500, payload_mtn_phone = ''0244000000''\<rparr>
     = (Success second_request, demo_store\<lparr>redemptions := [first_request, second_request]\<rparr>)"
    by (simp add: redeem_points_def Let_def demo_defs next_redemption_id_def
        generate_reference_def upper_char_def redemption_eval)
  have h2: "redemption_status (load_redemption second_request) = Pending"
    by (simp add: demo_defs redemption_eval)
  have h3: "send_airtime_to_user post_accepts (mtn_phone (load_redemption second_request))
        (airtime_amount (load_redemption second_request)) = (True, ''ATQid_5'')"
    by (simp add: demo_defs redemption_eval)
  have h4: "profiles first_settled_store (redemption_user (load_redemption second_request))
        = Some (demo_profile\<lparr>points := 0\<rparr>)"
    by (simp add: demo_defs redemption_eval)
  have h5: "\<not> reference_taken first_settled_store (redemption_id (load_redemption second_request)) ''ATQid_5''"
    by (simp add: demo_defs redemption_eval)
  have e: "redemption_user (load_redemption second_request) = 1"
     "redemption_id (load_redemption second_request) = 2"
     "redemption_points (load_redemption second_request) = 500"
     "redemption_points second_request = 500"
     "points (demo_profile\<lparr>points := 0\<rparr>) = 0"
     "profiles (demo_store\<lparr>redemptions := [first_request]\<rparr>) 1 = Some demo_profile"
     "points demo_profile = 1000"
    by (simp_all add: demo_defs redemption_eval)
  show ?thesis
    using sufficiency_checked_at_creation_only [OF h1 h2 h3 h4 h5, of 9 0] h1 h2 h3 h4 h5 e
    by simp
qed

text \<open>
  How a request comes to exceed the balance: user 1 holds 1000 points and files a request for
  1000 points and one for 500 points; both pass the check at creation, since creation deducts
  nothing. Settling the first leaves the balance at 0 and the second pending.
\<close>

lemma two_requests_created:
  "redeem_points ''20261104'' ''0a1b2c3d'' demo_store 1
       \<lparr>payload_points = 1000, payload_mtn_phone = ''0244000000''\<rparr>
     = (Success first_request, demo_store\<lparr>redemptions := [first_request]\<rparr>)
   \<and> redeem_points ''20261104'' ''ffffff00'' (demo_store\<lparr>redemptions := [first_request]\<rparr>) 1
       \<lparr>payload_points = 500, payload_mtn_phone = ''0244000000''\<rparr>
     = (Success second_request, demo_store\<lparr>redemptions := [first_request, second_request]\<rparr>)"
  by (simp add: redeem_points_def Let_def demo_defs next_redemption_id_def
      generate_reference_def upper_char_def redemption_eval)

lemma first_request_settled:
  "fst (approve_redemption post_accepts 9 0
            (demo_store\<lparr>redemptions := [first_request, second_request]\<rparr>)
            [load_redemption first_request])
     = first_settled_store"
  by (simp add: Let_def demo_defs redemption_eval)

text \<open>
  C1 as stated fails: with the balance at 0, the pending request for 500 points is settled as
  approved.
\<close>

theorem approved_beyond_balance_counterexample:
  "profiles first_settled_store 1 = Some (demo_profile\<lparr>points := 0\<rparr>)
   \<and> get_redemption first_settled_store 2 = Some second_request
   \<and> redemption_status second_request = Pending
   \<and> redemption_points second_request = 500
   \<and> get_redemption
        (fst (approve_redemption post_accepts 9 0 first_settled_store
                [load_redemption second_request])) 2
      = Some (second_request\<lparr>redemption_status := Approved, reference := ''ATQid_5'',
                             redemption_approved_by := Some 9,
                             redemption_approved_at := Some 0\<rparr>)"
  by (simp add: Let_def demo_defs redemption_eval)

text \<open>
  C4. When the payout fails, the request is stored as rejected and no balance changes, but the
  reason is not recorded: the text is put on the instance in memory only, the store is the one
  obtained by saving the status alone, and the row loaded back has no reason.
\<close>

theorem failed_settlement_reason_not_stored:
  assumes pending: "redemption_status i = Pending"
    and failed: "send_airtime_to_user post (mtn_phone i) (airtime_amount i) = (False, ref)"
    and fresh: "\<not> reference_taken s (redemption_id i) (reference i)"
  shows "\<exists>s' i'. approve_redemption post admin_user now s [i] = (s', [i'], None)
           \<and> rejection_reason_attr i' = Some ''Airtime API error. Try again.''
           \<and> s' = save_redemption s (i\<lparr>redemption_status := Rejected\<rparr>)
           \<and> profiles s' = profiles s
           \<and> get_redemption s' (redemption_id i)
               = Some ((redemption_request.truncate i)\<lparr>redemption_status := Rejected\<rparr>)
           \<and> rejection_reason_attr
                (load_redemption ((redemption_request.truncate i)\<lparr>redemption_status := Rejected\<rparr>))
               = None"
  unfolding approve_redemption_failure [OF pending failed fresh]
  by (simp add: get_redemption_save_redemption profiles_save_redemption load_redemption_def
      redemption_request.truncate_def redemption_request.extend_def redemption_instance.fields_def)

text \<open>The sample request, settled while the provider is down.\<close>

theorem failed_settlement_reason_not_stored_witness:
  "redemption_status (load_redemption demo_redemption) = Pending
   \<and> send_airtime_to_user post_down (mtn_phone (load_redemption demo_redemption))
        (airtime_amount (load_redemption demo_redemption)) = (False, [])
   \<and> \<not> reference_taken (demo_store\<lparr>redemptions := [demo_redemption]\<rparr>)
          (redemption_id (load_redemption demo_redemption))
          (reference (load_redemption demo_redemption))
   \<and> (\<exists>s' i'. approve_redemption post_down 9 0 (demo_store\<lparr>redemptions := [demo_redemption]\<rparr>)
                   [load_redemption demo_redemption] = (s', [i'], None)
           \<and> rejection_reason_attr i' = Some ''Airtime API error. Try again.''
           \<and> s' = demo_store\<lparr>redemptions := [demo_redemption\<lparr>redemption_status := Rejected\<rparr>]\<rparr>
           \<and> profiles s' 1 = Some demo_profile
           \<and> get_redemption s' 1 = Some (demo_redemption\<lparr>redemption_status := Rejected\<rparr>)
           \<and> rejection_reason_attr
                (load_redemption (demo_redemption\<lparr>redemption_status := Rejected\<rparr>)) = None)"
proof -
  have h1: "redemption_status (load_redemption demo_redemption) = Pending"
    by (simp add: demo_defs redemption_eval)
  have h2: "send_airtime_to_user post_down (mtn_phone (load_redemption demo_redemption))
        (airtime_amount (load_redemption demo_redemption)) = (False, [])"
    by (simp add: demo_defs redemption_eval)
  have h3: "\<not> reference_taken (demo_store\<lparr>redemptions := [demo_redemption]\<rparr>)
          (redemption_id (load_redemption demo_redemption))
          (reference (load_redemption demo_redemption))"
    by (simp add: demo_defs redemption_eval)
  have e: "redemption_id (load_redemption demo_redemption) = 1"
    "redemption_request.truncate (load_redemption demo_redemption) = demo_redemption"
    "save_redemption (demo_store\<lparr>redemptions := [demo_redemption]\<rparr>)
       ((load_redemption demo_redemption)\<lparr>redemption_status := Rejected\<rparr>)
     = demo_store\<lparr>redemptions := [demo_redemption\<lparr>redemption_status := Rejected\<rparr>]\<rparr>"
    "profiles (demo_store\<lparr>redemptions := [demo_redemption]\<rparr>) 1 = Some demo_profile"
    by (simp_all add: demo_defs redemption_eval)
  show ?thesis
    using failed_settlement_reason_not_stored [OF h1 h2 h3, of 9 0] h1 h2 h3 e
    by (auto simp add: profiles_save_redemption)
qed

text \<open>
  C5 as stated fails: the request that \<open>redeem_points\<close> creates is pending and already has a
  reference.
\<close>

theorem pending_request_has_reference_counterexample:
  "redeem_points ''20261104'' ''0a1b2c3d'' demo_store 1
       \<lparr>payload_points = 500, payload_mtn_phone = ''0244000000''\<rparr>
     = (Success demo_redemption, demo_store\<lparr>redemptions := [demo_redemption]\<rparr>)
   \<and> redemption_status demo_redemption = Pending
   \<and> reference demo_redemption = ''RDM-20261104-0A1B2C''"
  by (simp add: redeem_points_def Let_def demo_defs next_redemption_id_def
      generate_reference_def upper_char_def redemption_eval)

text \<open>
  C5, amended. A request has a reference from its creation on: \<open>redeem_points\<close> gives it the
  generated \<open>RDM-date-random\<close> text, which is not empty, and stores it pending with that
  reference. When a pending request whose reference no other request holds is settled and the
  payout fails, it is stored as rejected with its reference unchanged. When a pending request
  whose owner has a profile is settled and the payout succeeds with a reference that no other
  request holds, it is stored as approved with the reference that the payout returned: the
  \<open>requestId\<close> of the first entry of the provider's answer, or the empty text when that
  entry has none.
\<close>

theorem reference_generated_then_overwritten:
  assumes created: "redeem_points date_part uuid_hex s0 usr payload = (Success r, s0')"
    and pending1: "redemption_status i = Pending"
    and failed: "send_airtime_to_user post1 (mtn_phone i) (airtime_amount i) = (False, x)"
    and fresh1: "\<not> reference_taken s1 (redemption_id i) (reference i)"
    and pending2: "redemption_status j = Pending"
    and paid: "send_airtime_to_user post2 (mtn_phone j) (airtime_amount j) = (True, ref)"
    and owner: "profiles s2 (redemption_user j) = Some p"
    and fresh2: "\<not> reference_taken s2 (redemption_id j) ref"
  shows "redemption_status r = Pending
       \<and> reference r = generate_reference date_part uuid_hex
       \<and> reference r \<noteq> []
       \<and> get_redemption s0' (redemption_id r) = Some r
       \<and> (\<exists>row. get_redemption (fst (approve_redemption post1 admin_user now s1 [i]))
                    (redemption_id i) = Some row
                \<and> redemption_status row = Rejected \<and> reference row = reference i)
       \<and> (\<exists>row. get_redemption (fst (approve_redemption post2 admin_user now s2 [j]))
                    (redemption_id j) = Some row
                \<and> redemption_status row = Approved \<and> reference row = ref)
       \<and> (\<exists>error_message e entries.
              post2 (mtn_phone j) (airtime_amount j) = Json error_message (e # entries)
            \<and> ref = (case e of None \<Rightarrow> [] | Some request_id \<Rightarrow> request_id))"
proof -
  from redeem_points_Success [OF created] have
    c: "redemption_status r = Pending" "reference r = generate_reference date_part uuid_hex"
       "s0' = save_redemption s0 (load_redemption r)"
    by blast+
  have t: "redemption_request.truncate (load_redemption r) = r"
    by (simp add: load_redemption_def redemption_request.truncate_def
        redemption_request.extend_def)
  have i: "redemption_id (load_redemption r) = redemption_id r"
    by (simp add: load_redemption_def redemption_request.extend_def)
  have part1: "get_redemption s0' (redemption_id r) = Some r"
    using get_redemption_save_redemption [OF i, of s0] by (simp add: c t)
  have part2: "\<exists>row. get_redemption (fst (approve_redemption post1 admin_user now s1 [i]))
                    (redemption_id i) = Some row
                \<and> redemption_status row = Rejected \<and> reference row = reference i"
    unfolding approve_redemption_failure [OF pending1 failed fresh1]
    by (simp add: get_redemption_save_redemption redemption_request.truncate_def)
  have part3: "\<exists>row. get_redemption (fst (approve_redemption post2 admin_user now s2 [j]))
                    (redemption_id j) = Some row
                \<and> redemption_status row = Approved \<and> reference row = ref"
    unfolding approve_redemption_success [OF pending2 paid owner fresh2]
    by (simp add: get_redemption_save_redemption redemption_request.truncate_def)
  note part4 = send_airtime_to_user_True [OF paid]
  from c part1 part2 part3 part4 show ?thesis
    by (simp add: generate_reference_nonempty)
qed

text \<open>The sample request, created and then settled once with each provider.\<close>

theorem reference_generated_then_overwritten_witness:
  "redeem_points ''20261104'' ''0a1b2c3d'' demo_store 1
       \<lparr>payload_points = 500, payload_mtn_phone = ''0244000000''\<rparr>
     = (Success demo_redemption, demo_store\<lparr>redemptions := [demo_redemption]\<rparr>)
   \<and> redemption_status (load_redemption demo_redemption) = Pending
   \<and> send_airtime_to_user post_down (mtn_phone (load_redemption demo_redemption))
        (airtime_amount (load_redemption demo_redemption)) = (False, [])
   \<and> send_airtime_to_user post_accepts (mtn_phone (load_redemption demo_redemption))
        (airtime_amount (load_redemption demo_redemption)) = (True, ''ATQid_5'')
   \<and> profiles (demo_store\<lparr>redemptions := [demo_redemption]\<rparr>) 1 = Some demo_profile
   \<and> \<not> reference_taken (demo_store\<lparr>redemptions := [demo_redemption]\<rparr>) 1 ''RDM-20261104-0A1B2C''
   \<and> \<not> reference_taken (demo_store\<lparr>redemptions := [demo_redemption]\<rparr>) 1 ''ATQid_5''
   \<and> reference demo_redemption = ''RDM-20261104-0A1B2C''
   \<and> (\<exists>row. get_redemption
                (fst (approve_redemption post_down 9 0
                        (demo_store\<lparr>redemptions := [demo_redemption]\<rparr>)
                        [load_redemption demo_redemption])) 1 = Some row
            \<and> redemption_status row = Rejected \<and> reference row = ''RDM-20261104-0A1B2C'')
   \<and> (\<exists>row. get_redemption
                (fst (approve_redemption post_accepts 9 0
                        (demo_store\<lparr>redemptions := [demo_redemption]\<rparr>)
                        [load_redemption demo_redemption])) 1 = Some row
            \<and> redemption_status row = Approved \<and> reference row = ''ATQid_5'')"
proof -
  let ?s = "demo_store\<lparr>redemptions := [demo_redemption]\<rparr>"
  let ?i = "load_redemption demo_redemption"
  have h0: "redeem_points ''20261104'' ''0a1b2c3d'' demo_store 1
       \<lparr>payload_points = 500, payload_mtn_phone = ''0244000000''\<rparr>
     = (Success demo_redemption, ?s)"
    by (simp add: redeem_points_def Let_def demo_defs next_redemption_id_def
        generate_reference_def upper_char_def redemption_eval)
  have h1: "redemption_status ?i = Pending"
    by (simp add: demo_defs redemption_eval)
  have h2: "send_airtime_to_user post_down (mtn_phone ?i) (airtime_amount ?i) = (False, [])"
    by (simp add: demo_defs redemption_eval)
  have h3: "\<not> reference_taken ?s (redemption_id ?i) (reference ?i)"
    by (simp add: demo_defs redemption_eval)
  have h4: "send_airtime_to_user post_accepts (mtn_phone ?i) (airtime_amount ?i) = (True, ''ATQid_5'')"
    by (simp add: demo_defs redemption_eval)
  have h5: "profiles ?s (redemption_user ?i) = Some demo_profile"
    by (simp add: demo_defs redemption_eval)
  have h6: "\<not> reference_taken ?s (redemption_id ?i) ''ATQid_5''"
    by (simp add: demo_defs redemption_eval)
  have e: "redemption_id ?i = 1" "redemption_user ?i = 1" "reference ?i = ''RDM-20261104-0A1B2C''"
    "reference demo_redemption = ''RDM-20261104-0A1B2C''"
    by (simp_all add: demo_defs redemption_eval)
  show ?thesis
    using reference_generated_then_overwritten [OF h0 h1 h2 h3 h1 h4 h5 h6, of 9 0]
      h0 h1 h2 h3 h4 h5 h6 e
    by (auto simp del: approve_redemption.simps)
qed

text \<open>
  An answer without request id: the sample request is approved with the empty reference.
\<close>

lemma approved_with_empty_reference:
  "send_airtime_to_user post_without_id (mtn_phone demo_redemption) (airtime_amount demo_redemption)
     = (True, [])
   \<and> get_redemption
        (fst (approve_redemption post_without_id 9 0
                (demo_store\<lparr>redemptions := [demo_redemption]\<rparr>)
                [load_redemption demo_redemption])) 1
      = Some (demo_redemption\<lparr>redemption_status := Approved, reference := [],
                              redemption_approved_by := Some 9,
                              redemption_approved_at := Some 0\<rparr>)"
  by (simp add: Let_def demo_defs redemption_eval post_without_id_def)

section \<open>Image hashing\<close>

lemma foldl_base2_ones:
  "foldl (\<lambda>acc c. 2 * acc + (if c = CHR ''1'' then 1 else 0)) acc (replicate n (CHR ''1''))
   = (acc + 1) * 2 ^ n - (1::nat)"
  by (induction n arbitrary: acc) (simp_all add: algebra_simps)

lemma int_base2_ones: "int_base2 (replicate n (CHR ''1'')) = 2 ^ n - 1"
  by (simp add: int_base2_def foldl_base2_ones)

lemma format_hex_all_f: "format_hex (16 ^ Suc k - 1) = replicate (Suc k) (CHR ''f'')"
proof (induction k)
  case 0
  show ?case by (simp add: format_hex.simps [of 15] hex_digit_def)
next
  case (Suc k)
  let ?n = "16 ^ Suc (Suc k) - (1::nat)"
  have pos: "0 < (16::nat) ^ k" by simp
  then have n: "?n = 16 * (16 ^ Suc k - 1) + 15"
    by (simp only: power_Suc)
  define x where "x = (16::nat) ^ k"
  have "0 < x" and "?n = 256 * x - 1"
    by (simp_all add: x_def)
  then have ge: "\<not> ?n < 16" by arith
  have d: "?n div 16 = 16 ^ Suc k - 1" unfolding n by simp
  have m: "?n mod 16 = 15" unfolding n by simp
  have "format_hex ?n = format_hex (?n div 16) @ [hex_digit (?n mod 16)]"
    using ge by (subst format_hex.simps) simp
  also have "\<dots> = replicate (Suc k) (CHR ''f'') @ [CHR ''f'']"
    unfolding d m using Suc.IH by (simp add: hex_digit_def)
  also have "\<dots> = replicate (Suc (Suc k)) (CHR ''f'')"
    by (simp add: replicate_append_same)
  finally show ?case .
qed

lemma calculate_phash_Some:
  assumes "image_open image_file = Some pixels" and "pixels \<noteq> []"
  shows "calculate_phash image_open image_file
         = Inr (zfill (format_hex (int_base2
                  (map (\<lambda>px. if of_int px \<ge> (of_int (sum_list pixels) :: rat) / of_nat (length pixels)
                             then CHR ''1'' else CHR ''0'') pixels))) 64)"
  using assms by (simp add: calculate_phash_def Let_def)

lemma uniform_bits:
  assumes "0 < n"
  shows "map (\<lambda>px. if of_int px \<ge> (of_int (sum_list (replicate n v)) :: rat)
                                     / of_nat (length (replicate n v))
                   then CHR ''1'' else CHR ''0'') (replicate n v)
         = replicate n (CHR ''1'')"
  using assms by (simp add: sum_list_replicate)

lemma calculate_phash_uniform:
  assumes "image_open image_file = Some (replicate (4 * Suc k) v)"
  shows "calculate_phash image_open image_file = Inr (zfill (replicate (Suc k) (CHR ''f'')) 64)"
proof -
  have "(2::nat) ^ (4 * Suc k) = (2 ^ 4) ^ Suc k"
    by (rule power_mult)
  then have p: "(2::nat) ^ (4 * Suc k) = 16 ^ Suc k"
    by simp
  have b: "int_base2 (replicate (4 * Suc k) (CHR ''1'')) = 16 ^ Suc k - 1"
    unfolding int_base2_ones p ..
  have u: "map (\<lambda>px. if of_int px \<ge> (of_int (sum_list (replicate (4 * Suc k) v)) :: rat)
                                     / of_nat (length (replicate (4 * Suc k) v))
                   then CHR ''1'' else CHR ''0'') (replicate (4 * Suc k) v)
         = replicate (4 * Suc k) (CHR ''1'')"
    by (rule uniform_bits) simp
  have ne: "replicate (4 * Suc k) v \<noteq> []" by simp
  show ?thesis
    by (simp only: calculate_phash_Some [of image_open image_file "replicate (4 * Suc k) v", OF assms ne] u b format_hex_all_f)
qed

text \<open>
  For a grid of 1024 pixels the fingerprint has between 64 and 256 characters: the padding
  gives the lower bound, the 1024 bits the upper one.
\<close>

lemma foldl_base2_bound:
  "foldl (\<lambda>acc c. 2 * acc + (if c = CHR ''1'' then 1 else 0)) (acc :: nat) bits
   < (acc + 1) * 2 ^ length bits"
proof (induction bits arbitrary: acc)
  case Nil
  show ?case by simp
next
  case (Cons c bits)
  have "foldl (\<lambda>acc c. 2 * acc + (if c = CHR ''1'' then 1 else 0)) (2 * acc + (if c = CHR ''1'' then 1 else 0)) bits
        < (2 * acc + (if c = CHR ''1'' then 1 else 0) + 1) * 2 ^ length bits"
    by (rule Cons.IH)
  also have "\<dots> \<le> (2 * acc + 2) * 2 ^ length bits"
    by (rule mult_le_mono1) simp
  finally show ?case by (simp add: algebra_simps)
qed

lemma int_base2_bound: "int_base2 bits < 2 ^ length bits"
  using foldl_base2_bound [of 0 bits] by (simp add: int_base2_def)

lemma length_format_hex: "n < 16 ^ Suc k \<Longrightarrow> length (format_hex n) \<le> Suc k"
proof (induction k arbitrary: n)
  case 0
  then show ?case by (simp add: format_hex.simps [of n])
next
  case (Suc k)
  show ?case
  proof (cases "n < 16")
    case True
    then show ?thesis by (simp add: format_hex.simps [of n])
  next
    case False
    from Suc.prems have "n div 16 < 16 ^ Suc k"
      by (simp add: less_mult_imp_div_less mult.commute)
    then have "length (format_hex (n div 16)) \<le> Suc k"
      by (rule Suc.IH)
    then show ?thesis
      using False by (simp add: format_hex.simps [of n])
  qed
qed

lemma length_zfill: "length (zfill s width) = max width (length s)"
  by (simp add: zfill_def max_def)

lemma calculate_phash_length:
  assumes "image_open image_file = Some pixels" and "length pixels = 1024"
  shows "\<exists>h. calculate_phash image_open image_file = Inr h \<and> 64 \<le> length h \<and> length h \<le> 256"
proof -
  let ?bits = "map (\<lambda>px. if of_int px \<ge> (of_int (sum_list pixels) :: rat) / of_nat (length pixels)
                             then CHR ''1'' else CHR ''0'') pixels"
  have ne: "pixels \<noteq> []" using assms(2) by auto
  have "int_base2 ?bits < 2 ^ length ?bits" by (rule int_base2_bound)
  also have "(2::nat) ^ length ?bits = 2 ^ (4 * Suc 255)" by (simp add: assms(2))
  also have "\<dots> = (2 ^ 4) ^ Suc 255" by (rule power_mult)
  finally have "int_base2 ?bits < 16 ^ Suc 255" by simp
  then have "length (format_hex (int_base2 ?bits)) \<le> Suc 255"
    by (rule length_format_hex)
  then show ?thesis
    unfolding calculate_phash_Some [of image_open image_file pixels, OF assms(1) ne]
    by (simp add: length_zfill)
qed

text \<open>
  C6. The hash of the 32 by 32 grid has 1024 bits, that is up to 256 hexadecimal digits, and
  \<open>zfill\<close> pads to 64 characters without ever cutting. For every image whose grid is of one
  grey level (each pixel then reaches the mean), the fingerprint is the character f repeated 256
  times: its length is 256, not 64.
\<close>

theorem calculate_phash_uniform_256:
  assumes "image_open image_file = Some (replicate 1024 v)"
  shows "calculate_phash image_open image_file = Inr (replicate 256 (CHR ''f''))
       \<and> length (replicate 256 (CHR ''f'')) = 256"
proof -
  have "image_open image_file = Some (replicate (4 * Suc 255) v)"
    using assms by simp
  then have "calculate_phash image_open image_file = Inr (zfill (replicate (Suc 255) (CHR ''f'')) 64)"
    by (rule calculate_phash_uniform)
  then show ?thesis
    by (simp add: zfill_def)
qed

text \<open>A white image: every pixel of the grid is 255.\<close>

theorem calculate_phash_uniform_256_witness:
  "(\<lambda>image_file. Some (replicate 1024 255)) ([] :: bytes) = Some (replicate 1024 255)
   \<and> calculate_phash (\<lambda>image_file. Some (replicate 1024 255)) [] = Inr (replicate 256 (CHR ''f''))
   \<and> length (replicate 256 (CHR ''f'')) = 256"
  using calculate_phash_uniform_256 [of "\<lambda>image_file. Some (replicate 1024 255)" "[]" 255]
  by simp

section \<open>GPS clustering\<close>

text \<open>
  \<open>haversine_distance\<close> raises nothing but \<open>ValueError\<close>, and it does so exactly when the
  computed \<open>a\<close> is negative or above 1. The loop returns the count when every distance
  computation returns, and raises as soon as one of them raises.
\<close>

lemma haversine_distance_raises_ValueError:
  "haversine_distance fa lat1 lon1 lat2 lon2 = Inl e \<Longrightarrow> e = ValueError"
  by (auto simp add: haversine_distance_def Let_def math_sqrt_def split: sum.splits if_splits)

lemma count_nearby_returns:
  assumes "list_all (\<lambda>r. \<not> isl (haversine_distance fa lat lon (latitude r) (longitude r))) rs"
  shows "count_nearby fa lat lon threshold_m rs n
         = Inr (n + int (length (filter
             (\<lambda>r. projr (haversine_distance fa lat lon (latitude r) (longitude r)) \<le> threshold_m)
             rs)))"
  using assms
proof (induction rs arbitrary: n)
  case Nil
  show ?case by simp
next
  case (Cons r rs)
  then obtain d where d: "haversine_distance fa lat lon (latitude r) (longitude r) = Inr d"
    by (cases "haversine_distance fa lat lon (latitude r) (longitude r)") auto
  from Cons show ?case by (simp add: d)
qed

lemma count_nearby_raises:
  assumes "list_ex (\<lambda>r. isl (haversine_distance fa lat lon (latitude r) (longitude r))) rs"
  shows "count_nearby fa lat lon threshold_m rs n = Inl ValueError"
  using assms
proof (induction rs arbitrary: n)
  case Nil
  then show ?case by simp
next
  case (Cons r rs)
  show ?case
  proof (cases "haversine_distance fa lat lon (latitude r) (longitude r)")
    case (Inl e)
    then show ?thesis
      using haversine_distance_raises_ValueError [OF Inl] by simp
  next
    case (Inr d)
    with Cons show ?thesis by simp
  qed
qed

lemma detect_gps_spam_returns:
  assumes "list_all (\<lambda>r. \<not> isl (haversine_distance fa lat lon (latitude r) (longitude r)))
             (filter (\<lambda>r. user r = Some usr \<and> now - 300000000 \<le> created_at r) (reports s))"
  shows "detect_gps_spam fa now s usr lat lon 100 5
         = Inr (3 \<le> length (filter
             (\<lambda>r. projr (haversine_distance fa lat lon (latitude r) (longitude r)) \<le> 100)
             (filter (\<lambda>r. user r = Some usr \<and> now - 300000000 \<le> created_at r) (reports s))))"
  using count_nearby_returns [OF assms, of 100 0]
  by (simp add: detect_gps_spam_def Let_def timedelta_minutes_def)

lemma detect_gps_spam_raises:
  assumes "list_ex (\<lambda>r. isl (haversine_distance fa lat lon (latitude r) (longitude r)))
             (filter (\<lambda>r. user r = Some usr \<and> now - 300000000 \<le> created_at r) (reports s))"
  shows "detect_gps_spam fa now s usr lat lon 100 5 = Inl ValueError"
  using count_nearby_raises [OF assms, of 100 0]
  by (simp add: detect_gps_spam_def Let_def timedelta_minutes_def)

text \<open>
  Without rounding the term under the square roots lies between 0 and 1 for all arguments, so
  neither \<open>math.sqrt\<close> raises, the \<open>atan2\<close> form of the code is the arcsine form of the
  haversine formula, and the check returns whether at least 3 of the user's reports of the
  last 5 minutes lie within 100 metres of the candidate point.
\<close>

lemma haversine_term_bounds:
  fixes phi1 phi2 dl :: real
  defines "a \<equiv> (sin ((phi2 - phi1) / 2))\<^sup>2 + cos phi1 * cos phi2 * (sin (dl / 2))\<^sup>2"
  shows "0 \<le> a" and "a \<le> 1"
proof -
  define h where "h = (sin ((phi2 - phi1) / 2))\<^sup>2"
  define t where "t = (sin (dl / 2))\<^sup>2"
  define cs where "cs = cos (phi1 + phi2)"
  have h: "0 \<le> h" "h \<le> 1" and t: "0 \<le> t" "t \<le> 1" and cs: "- 1 \<le> cs" "cs \<le> 1"
    by (simp_all add: h_def t_def cs_def abs_square_le_1)
  have "cos (phi1 - phi2) = cos (2 * ((phi2 - phi1) / 2))"
    by (metis cos_minus minus_diff_eq mult.commute nonzero_divide_eq_eq zero_neq_numeral)
  also have "\<dots> = 1 - 2 * h"
    unfolding h_def by (rule cos_double_sin)
  finally have cd: "cos (phi1 - phi2) = 1 - 2 * h" .
  have cc: "cos phi1 * cos phi2 = (1 - 2 * h + cs) / 2"
    by (simp add: cos_times_cos cd cs_def)
  have a1: "a = h * (1 - t) + t * (1 + cs) / 2"
    unfolding a_def cc h_def [symmetric] t_def [symmetric] by (simp add: field_simps)
  have a2: "1 - a = (1 - h) * (1 - t) + t * (1 - cs) / 2"
    unfolding a1 by (simp add: field_simps)
  have "0 \<le> h * (1 - t)" "0 \<le> t * (1 + cs)" "0 \<le> (1 - h) * (1 - t)" "0 \<le> t * (1 - cs)"
    using h t cs by (simp_all add: mult_nonneg_nonneg)
  then show "0 \<le> a" and "a \<le> 1"
    using a1 a2 by linarith+
qed

lemma atan2_sqrt_arcsin:
  assumes "0 \<le> a" and "a \<le> 1"
  shows "atan2 (sqrt a) (sqrt (1 - a)) = arcsin (sqrt a)"
proof (cases "a = 1")
  case True
  then show ?thesis by (simp add: atan2_def)
next
  case False
  with assms have lt: "a < 1" by simp
  then have pos: "0 < sqrt (1 - a)" by simp
  have s: "- 1 < sqrt a" "sqrt a < 1"
    using assms lt by (simp_all add: less_le_trans [of "- 1" 0])
  have "arcsin (sqrt a) = arctan (sqrt a / sqrt (1 - (sqrt a)\<^sup>2))"
    using s by (rule arcsin_arctan)
  also have "\<dots> = arctan (sqrt a / sqrt (1 - a))"
    using assms by simp
  finally show ?thesis
    using pos by (simp add: atan2_def)
qed

lemma haversine_distance_exact:
  "haversine_distance exact_arith lat1 lon1 lat2 lon2
   = Inr (great_circle_distance lat1 lon1 lat2 lon2)"
proof -
  define a where "a = (sin ((lat2 - lat1) * pi / 360))\<^sup>2
      + cos (lat1 * pi / 180) * cos (lat2 * pi / 180) * (sin ((lon2 - lon1) * pi / 360))\<^sup>2"
  have "a = (sin ((lat2 * pi / 180 - lat1 * pi / 180) / 2))\<^sup>2
      + cos (lat1 * pi / 180) * cos (lat2 * pi / 180)
        * (sin ((lon2 - lon1) * pi / 180 / 2))\<^sup>2"
    by (simp add: a_def field_simps)
  then have b: "0 \<le> a" "a \<le> 1"
    using haversine_term_bounds [of "lat2 * pi / 180" "lat1 * pi / 180" "(lon2 - lon1) * pi / 180"]
    by simp_all
  have "haversine_distance exact_arith lat1 lon1 lat2 lon2
        = Inr (6371000 * (2 * atan2 (sqrt a) (sqrt (1 - a))))"
    using b
    by (simp add: haversine_distance_def Let_def math_sqrt_def exact_arith_def a_def [symmetric])
  also have "\<dots> = Inr (2 * 6371000 * arcsin (sqrt a))"
    by (simp add: atan2_sqrt_arcsin [OF b])
  also have "2 * 6371000 * arcsin (sqrt a) = great_circle_distance lat1 lon1 lat2 lon2"
    by (simp add: great_circle_distance_def a_def)
  finally show ?thesis .
qed

lemma count_nearby_exact:
  "count_nearby exact_arith lat lon threshold_m rs n
   = Inr (n + int (length (filter
        (\<lambda>r. great_circle_distance lat lon (latitude r) (longitude r) \<le> threshold_m) rs)))"
  by (induction rs arbitrary: n) (simp_all add: haversine_distance_exact)

lemma detect_gps_spam_exact:
  "detect_gps_spam exact_arith now s usr lat lon 100 5
   = Inr (3 \<le> length (filter
            (\<lambda>r. user r = Some usr \<and> now - 300000000 \<le> created_at r
                 \<and> great_circle_distance lat lon (latitude r) (longitude r) \<le> 100)
            (reports s)))"
  by (simp add: detect_gps_spam_def Let_def count_nearby_exact timedelta_minutes_def
      conj_commute conj_left_commute)

lemma great_circle_distance_same_point: "great_circle_distance lat lon lat lon = 0"
  by (simp add: great_circle_distance_def)

lemma great_circle_distance_half_turn: "great_circle_distance 0 180 0 0 = 6371000 * pi"
  by (simp add: great_circle_distance_def)

lemma detect_gps_spam_exact_examples:
  "detect_gps_spam exact_arith 60000000
     (demo_store\<lparr>reports := [origin_report, origin_report, origin_report]\<rparr>) 1 0 0 100 5
     = Inr True
   \<and> detect_gps_spam exact_arith 60000000
     (demo_store\<lparr>reports := [origin_report, origin_report]\<rparr>) 1 0 0 100 5
     = Inr False
   \<and> detect_gps_spam exact_arith 60000000
     (demo_store\<lparr>reports := [origin_report, origin_report, origin_report]\<rparr>) 2 0 0 100 5
     = Inr False
   \<and> detect_gps_spam exact_arith 360000000
     (demo_store\<lparr>reports := [origin_report, origin_report, origin_report]\<rparr>) 1 0 0 100 5
     = Inr False
   \<and> detect_gps_spam exact_arith 60000000
     (demo_store\<lparr>reports := [origin_report, origin_report, origin_report]\<rparr>) 1 0 180 100 5
     = Inr False"
proof -
  have far: "\<not> 6371000 * pi \<le> 100"
    using pi_ge_two by linarith
  show ?thesis
    using far
    by (simp add: detect_gps_spam_exact origin_report_def demo_report_def
        great_circle_distance_same_point great_circle_distance_half_turn)
qed

text \<open>
  With doubles the term can round above 1. For the candidate point and the far point, which
  are almost opposite on the globe, double arithmetic gives the least double above 1, so
  \<open>1 - a\<close> is negative and \<open>math.sqrt\<close> raises.
\<close>

lemmas double_defs = cand_lat_def cand_lon_def far_lat_def far_lon_def d_phi1_def d_phi2_def
  d_dlat_def d_dphi_def d_dlambda_def d_sin_dphi_def d_sin2_dphi_def d_cos_phi_def d_coscos_def
  d_half_dlambda_def d_a_def

lemma haversine_distance_far_point:
  assumes "agrees_with_doubles fa"
  shows "haversine_distance fa cand_lat cand_lon far_lat far_lon = Inl ValueError"
proof -
  have a: "\<not> d_a < 0" by (simp add: d_a_def)
  from assms show ?thesis
    unfolding agrees_with_doubles_def
    by (simp add: haversine_distance_def Let_def math_sqrt_def a)
qed

text \<open>
  C9. The check does not return for every input. User 1 has one report at the far point, one
  minute old; under every arithmetic that rounds the eighteen recorded operations as doubles
  do, hence under double arithmetic, the check of the candidate point for user 1 raises
  \<open>ValueError\<close> instead of returning false.
\<close>

theorem detect_gps_spam_far_point_raises:
  assumes "agrees_with_doubles fa"
  shows "detect_gps_spam fa 60000000 far_store 1 cand_lat cand_lon 100 5 = Inl ValueError"
  using haversine_distance_far_point [OF assms]
  by (simp add: detect_gps_spam_def Let_def timedelta_minutes_def far_store_def far_report_def
      demo_store_def demo_report_def)

text \<open>The recorded doubles themselves.\<close>

lemma double_trace_agrees: "agrees_with_doubles double_trace"
  by (simp add: agrees_with_doubles_def double_trace_def double_defs)

theorem detect_gps_spam_far_point_raises_witness:
  "agrees_with_doubles double_trace
   \<and> detect_gps_spam double_trace 60000000 far_store 1 cand_lat cand_lon 100 5 = Inl ValueError"
  using detect_gps_spam_far_point_raises [OF double_trace_agrees] double_trace_agrees
  by simp

section \<open>Report submission\<close>

text \<open>\<open>str.split\<close> never returns an empty list, so its first and last items exist.\<close>

lemma split_on_nonempty: "split_on sep s \<noteq> []"
  by (induction s) (auto split: list.splits)

lemma rate_limit_keeps_tables:
  assumes "rate_limit now s key limit window_seconds = (limited, s')"
  shows "reports s' = reports s" and "profiles s' = profiles s"
  using assms by (auto simp add: rate_limit_def Let_def cache_set_def split: if_splits)

text \<open>
  The handler of the view answers a payload that does not base64-decode with an error
  response.
\<close>

lemma submit_report_bad_base64:
  assumes user_ok: "rate_limit (env_now env) s (''rep:user:'' @ str_nat (auth req)) 3 60 = (False, s1)"
    and ip_ok: "rate_limit (env_now env) s1 (''rep:ip:'' @ str_opt (get_client_ip req)) 10 60
                = (False, s2)"
    and no_spam: "detect_gps_spam (env_float env) (env_now env) s2 (auth req)
                    (payload_latitude payload) (payload_longitude payload) 100 5 = Inr False"
    and region_ok: "payload_region payload \<in> set RegionChoices"
    and undecodable: "env_b64decode env (last (split_on (CHR '','') (image_base64 payload))) = None"
  shows "submit_report env s req payload = (ErrorResponse 400 ''Invalid image data.'', s2)"
  unfolding submit_report_def Let_def user_ok ip_ok prod.case no_spam undecodable
  using region_ok by simp

text \<open>
  C8. A submission that passes the rate limits, the spam check and the region check, and whose
  payload base64-decodes to data that Pillow cannot identify, creates no report; but the view
  returns no error response: \<open>UnidentifiedImageError\<close> leaves it uncaught.
\<close>

theorem submit_report_unparseable_image_raises:
  assumes user_ok: "rate_limit (env_now env) s (''rep:user:'' @ str_nat (auth req)) 3 60 = (False, s1)"
    and ip_ok: "rate_limit (env_now env) s1 (''rep:ip:'' @ str_opt (get_client_ip req)) 10 60
                = (False, s2)"
    and no_spam: "detect_gps_spam (env_float env) (env_now env) s2 (auth req)
                    (payload_latitude payload) (payload_longitude payload) 100 5 = Inr False"
    and region_ok: "payload_region payload \<in> set RegionChoices"
    and decodes: "env_b64decode env (last (split_on (CHR '','') (image_base64 payload)))
                  = Some raw_image"
    and unparseable: "env_image_open env raw_image = None"
  shows "submit_report env s req payload = (Raised UnidentifiedImageError, s2)
       \<and> reports s2 = reports s"
proof -
  have "reports s1 = reports s" "reports s2 = reports s1"
    by (rule rate_limit_keeps_tables [OF user_ok], rule rate_limit_keeps_tables [OF ip_ok])
  moreover have "submit_report env s req payload = (Raised UnidentifiedImageError, s2)"
    unfolding submit_report_def Let_def user_ok ip_ok prod.case no_spam decodes
    using region_ok by (simp add: calculate_phash_def unparseable)
  ultimately show ?thesis by simp
qed

lemma submit_report_Success:
  assumes "submit_report env s req payload = (Success report, s')"
  shows "\<exists>s2. create_report s2 report = Inr s' \<and> profiles s2 = profiles s
            \<and> user report = Some (auth req)
            \<and> ai_valid report = fst (ai_validate_pothole (env_ai_bypass env) [])
            \<and> ai_score report = Some (snd (ai_validate_pothole (env_ai_bypass env) []))
            \<and> is_spam report = (\<not> ai_valid report)
            \<and> status report = Pending \<and> points_awarded report = 0"
proof -
  obtain l1 s1 where r1: "rate_limit (env_now env) s (''rep:user:'' @ str_nat (auth req)) 3 60 = (l1, s1)"
    by (cases "rate_limit (env_now env) s (''rep:user:'' @ str_nat (auth req)) 3 60")
  obtain l2 s2 where r2: "rate_limit (env_now env) s1 (''rep:ip:'' @ str_opt (get_client_ip req)) 10 60 = (l2, s2)"
    by (cases "rate_limit (env_now env) s1 (''rep:ip:'' @ str_opt (get_client_ip req)) 10 60")
  have p: "profiles s2 = profiles s"
    using rate_limit_keeps_tables(2) [OF r1] rate_limit_keeps_tables(2) [OF r2] by simp
  show ?thesis
    using assms p unfolding submit_report_def Let_def r1 r2 prod.case
    by (auto simp add: ai_validate_pothole_def split: if_splits sum.splits option.splits)
qed

lemma str_nat_1: "str_nat (Suc 0) = ''1''"
  by (simp add: str_nat.simps [of "Suc 0"])

lemmas submit_eval = demo_env_def demo_request_def text_payload_def image_payload_def
  demo_store_def demo_report_def demo_store_user_counted_def demo_store_counted_def
  rate_limit_def cache_get_def cache_set_def get_client_ip_def str_opt_def str_nat_1
  detect_gps_spam_def timedelta_minutes_def RegionChoices_def Let_def

lemma demo_rate_limits:
  "rate_limit (env_now demo_env) demo_store (''rep:user:'' @ str_nat (auth demo_request)) 3 60
     = (False, demo_store_user_counted)"
  "rate_limit (env_now demo_env) demo_store_user_counted
       (''rep:ip:'' @ str_opt (get_client_ip demo_request)) 10 60
     = (False, demo_store_counted)"
  by (simp_all add: submit_eval)

lemma demo_no_spam:
  "detect_gps_spam (env_float demo_env) (env_now demo_env) demo_store_counted (auth demo_request)
     (payload_latitude p) (payload_longitude p) 100 5 = Inr False"
  by (simp add: submit_eval)

text \<open>The submission whose payload is the base64 text of the word hello.\<close>

theorem submit_report_unparseable_image_raises_witness:
  "rate_limit (env_now demo_env) demo_store (''rep:user:'' @ str_nat (auth demo_request)) 3 60
     = (False, demo_store_user_counted)
   \<and> rate_limit (env_now demo_env) demo_store_user_counted
       (''rep:ip:'' @ str_opt (get_client_ip demo_request)) 10 60
     = (False, demo_store_counted)
   \<and> detect_gps_spam (env_float demo_env) (env_now demo_env) demo_store_counted (auth demo_request)
        (payload_latitude text_payload) (payload_longitude text_payload) 100 5 = Inr False
   \<and> payload_region text_payload \<in> set RegionChoices
   \<and> env_b64decode demo_env (last (split_on (CHR '','') (image_base64 text_payload)))
        = Some [104, 101, 108, 108, 111]
   \<and> env_image_open demo_env [104, 101, 108, 108, 111] = None
   \<and> submit_report demo_env demo_store demo_request text_payload
        = (Raised UnidentifiedImageError, demo_store_counted)
   \<and> reports demo_store_counted = reports demo_store"
proof -
  note h1 = demo_rate_limits(1) and h2 = demo_rate_limits(2)
  have h3: "detect_gps_spam (env_float demo_env) (env_now demo_env) demo_store_counted (auth demo_request)
        (payload_latitude text_payload) (payload_longitude text_payload) 100 5 = Inr False"
    by (rule demo_no_spam)
  have h4: "payload_region text_payload \<in> set RegionChoices"
    by (simp add: text_payload_def RegionChoices_def)
  have h5: "env_b64decode demo_env (last (split_on (CHR '','') (image_base64 text_payload)))
        = Some [104, 101, 108, 108, 111]"
    by (simp add: text_payload_def demo_env_def)
  have h6: "env_image_open demo_env [104, 101, 108, 108, 111] = None"
    by (simp add: demo_env_def white_png_def)
  show ?thesis
    using submit_report_unparseable_image_raises [OF h1 h2 h3 h4 h5 h6] h1 h2 h3 h4 h5 h6
    by simp
qed

lemma create_report_get:
  assumes "create_report s r = Inr s'"
  shows "get_report s' (report_id r) = Some r" and "profiles s' = profiles s"
  using assms
  by (auto simp add: create_report_def get_report_def find_append_new split: if_splits)

lemma approve_valid_pending:
  assumes "status report = Pending" and "ai_valid report" and "points_awarded report = 0"
    and "user report = Some u"
  shows "\<exists>s' e r'. approve_reports admin_user now s [report] = (s', e)
           \<and> get_report s' (report_id report) = Some r' \<and> status r' = Approved"
  using assms
  by (cases "profiles s u")
     (simp_all add: Let_def award_report_points_def profiles_save_report
        get_report_save_report)

text \<open>
  C10. Content validation answers valid for every image, with score 0.99 under the bypass
  setting and 0.95 otherwise. So every report that \<open>submit_report\<close> creates has
  \<open>ai_valid\<close> true, \<open>is_spam\<close> false and that score, is pending and is stored; and
  approving it stores it as approved: the approve action never takes the branch that turns an
  invalid report into a rejected one.
\<close>

theorem submitted_report_is_valid:
  assumes "submit_report env s req payload = (Success report, s')"
  shows "ai_validate_pothole ai_bypass image_file = (True, if ai_bypass then 0.99 else 0.95)
       \<and> ai_valid report \<and> \<not> is_spam report
       \<and> ai_score report = Some (if env_ai_bypass env then 0.99 else 0.95)
       \<and> status report = Pending
       \<and> get_report s' (report_id report) = Some report
       \<and> (\<exists>s'' e r'. approve_reports admin_user now s' [report] = (s'', e)
              \<and> get_report s'' (report_id report) = Some r' \<and> status r' = Approved)"
proof -
  from submit_report_Success [OF assms] obtain s2 where
    c: "create_report s2 report = Inr s'" and
    u: "user report = Some (auth req)" and
    v: "ai_valid report = fst (ai_validate_pothole (env_ai_bypass env) [])"
       "ai_score report = Some (snd (ai_validate_pothole (env_ai_bypass env) []))"
       "is_spam report = (\<not> ai_valid report)" and
    p: "status report = Pending" "points_awarded report = 0"
    by blast
  have valid: "ai_valid report"
    by (simp add: v ai_validate_pothole_def)
  from approve_valid_pending [OF p(1) valid p(2) u]
  have a: "\<exists>s'' e r'. approve_reports admin_user now s' [report] = (s'', e)
              \<and> get_report s'' (report_id report) = Some r' \<and> status r' = Approved" .
  show ?thesis
    using a valid v p create_report_get(1) [OF c]
    by (simp add: ai_validate_pothole_def)
qed

lemma demo_submission:
  "submit_report demo_env demo_store demo_request image_payload
   = (Success submitted_report,
      demo_store_counted\<lparr>reports := [demo_report, submitted_report]\<rparr>)"
proof -
  have white: "env_image_open demo_env white_png = Some (replicate (4 * Suc 255) 255)"
    by (simp add: demo_env_def)
  have ph: "calculate_phash (env_image_open demo_env) white_png
            = Inr (replicate 256 (CHR ''f''))"
    unfolding calculate_phash_uniform
      [of "env_image_open demo_env" white_png 255 255, OF white]
    by (simp add: zfill_def)
  have dec: "env_b64decode demo_env (last (split_on (CHR '','') (image_base64 image_payload)))
             = Some white_png"
    by (simp add: image_payload_def text_payload_def demo_env_def white_png_base64_def)
  have ne: "''00ff'' \<noteq> replicate 256 (CHR ''f'')"
  proof
    assume "''00ff'' = replicate 256 (CHR ''f'')"
    then have "length ''00ff'' = length (replicate 256 (CHR ''f''))"
      by (rule arg_cong)
    then show False by simp
  qed
  have fresh: "\<not> list_ex (\<lambda>r. image_hash r = replicate 256 (CHR ''f'')) (reports demo_store_counted)"
    using ne by (simp add: demo_store_counted_def demo_store_def demo_report_def)
  show ?thesis
    unfolding submit_report_def Let_def demo_rate_limits prod.case demo_no_spam dec sum.case
      option.case ph
    using fresh
    by (simp add: RegionChoices_def image_payload_def text_payload_def ai_validate_pothole_def
        generate_device_fingerprint_def get_client_ip_def str_opt_def create_report_def
        demo_env_def demo_request_def submitted_report_def demo_store_counted_def
        demo_store_def demo_report_def)
qed

text \<open>The submission with the white image.\<close>

theorem submitted_report_is_valid_witness:
  "submit_report demo_env demo_store demo_request image_payload
     = (Success submitted_report,
        demo_store_counted\<lparr>reports := [demo_report, submitted_report]\<rparr>)
   \<and> ai_validate_pothole False [] = (True, 0.95)
   \<and> ai_valid submitted_report \<and> \<not> is_spam submitted_report
   \<and> ai_score submitted_report = Some 0.95
   \<and> status submitted_report = Pending
   \<and> get_report (demo_store_counted\<lparr>reports := [demo_report, submitted_report]\<rparr>) ''9e2d''
        = Some submitted_report
   \<and> (\<exists>s'' e r'. approve_reports 9 0
                     (demo_store_counted\<lparr>reports := [demo_report, submitted_report]\<rparr>)
                     [submitted_report] = (s'', e)
              \<and> get_report s'' ''9e2d'' = Some r' \<and> status r' = Approved)"
proof -
  have i: "report_id submitted_report = ''9e2d''" "env_ai_bypass demo_env = False"
    by (simp_all add: submitted_report_def demo_env_def)
  show ?thesis
    using submitted_report_is_valid [OF demo_submission, of False "[]" 9 0] demo_submission i
    by (simp del: approve_reports.simps)
qed

end
